theory Spec2Isabelle
  imports Main "HOL-Library.Char_ord" "HOL-Library.List_Lexorder" "HOL-Library.Multiset"
begin

section \<open>Data model of driver.ts\<close>

text \<open>
  A shallow embedding of \<^verbatim>\<open>src/driver.ts\<close>: the retry wrapper around a remote
  browser driver. The browser driver, the wall clock and the call stack are external;
  they are a record of operations over an abstract world \<open>'w\<close>, each returning its
  result together with the next world. A JavaScript \<^verbatim>\<open>throw\<close> is the left
  injection of a sum.
\<close>

subsection \<open>Locators\<close>

text \<open>
  \<^verbatim>\<open>By.css(s)\<close> and \<^verbatim>\<open>By.xpath(s)\<close> of selenium-webdriver build a
  \<^verbatim>\<open>By\<close> object of a strategy and a selector; its \<^verbatim>\<open>toString()\<close> prints
  \<^verbatim>\<open>By(using, value)\<close>.
\<close>

datatype strategy = CssSelector | XPath

datatype locator = By strategy string

definition By_css :: "string \<Rightarrow> locator" where
  "By_css selector = By CssSelector selector"

definition By_xpath :: "string \<Rightarrow> locator" where
  "By_xpath xpath = By XPath xpath"

fun strategy_toString :: "strategy \<Rightarrow> string" where
  "strategy_toString CssSelector = ''css selector''"
| "strategy_toString XPath = ''xpath''"

fun locator_toString :: "locator \<Rightarrow> string" where
  "locator_toString (By u v) = ''By('' @ strategy_toString u @ '', '' @ v @ '')''"

text \<open>An array inside a template literal: the elements' strings joined by commas.\<close>

fun locators_toString :: "locator list \<Rightarrow> string" where
  "locators_toString [] = []"
| "locators_toString [l] = locator_toString l"
| "locators_toString (l # ls) = locator_toString l @ '','' @ locators_toString ls"

subsection \<open>Errors and thrown values\<close>

datatype errorClass =
  NoSuchElementError | StaleElementReferenceError | InvalidSelectorError
  | WebDriverError | TypeError | AssertionError

text \<open>
  An error as the driver raises it: a fresh object, which has no
  \<^verbatim>\<open>getElementError\<close> property yet.
\<close>

record driverError =
  raisedClass :: errorClass
  raisedMessage :: string
  raisedStack :: "string option"

text \<open>An error object inside driver.ts, with the marker that getElement sets.\<close>

record jsError =
  errClass :: errorClass
  message :: string
  stack :: "string option"
  getElementError :: bool

definition raised :: "driverError \<Rightarrow> jsError" where
  "raised r = \<lparr>errClass = raisedClass r, message = raisedMessage r,
                stack = raisedStack r, getElementError = False\<rparr>"

text \<open>
  What a \<^verbatim>\<open>throw\<close> carries: \<^verbatim>\<open>let currentException;\<close> is
  \<^verbatim>\<open>undefined\<close> until a catch block assigns it.
\<close>

datatype thrown = Undefined | Error jsError

subsection \<open>The external world\<close>

text \<open>
  \<open>Root\<close> is the driver session (\<^verbatim>\<open>this._webDriver.driver\<close>), the start of
  every chain resolution; \<open>WebElement\<close> is a reference to a node of the page.
\<close>

datatype node = Root | WebElement nat

text \<open>
  The sizes and positions that selenium-webdriver reports: width and height; x, y,
  width and height; x and y.
\<close>

type_synonym ISize = "int \<times> int"

type_synonym IRectangle = "int \<times> int \<times> int \<times> int"

type_synonym ILocation = "int \<times> int"

record 'w driver =
  date_now :: "'w \<Rightarrow> int \<times> 'w"
  error_stack :: "'w \<Rightarrow> string option"
  wd_findElement :: "node \<Rightarrow> locator \<Rightarrow> 'w \<Rightarrow> (driverError + node) \<times> 'w"
  wd_findElements :: "node \<Rightarrow> locator \<Rightarrow> 'w \<Rightarrow> (driverError + node list) \<times> 'w"
  wd_isEnabled :: "node \<Rightarrow> 'w \<Rightarrow> (driverError + bool) \<times> 'w"
  wd_isDisplayed :: "node \<Rightarrow> 'w \<Rightarrow> (driverError + bool) \<times> 'w"
  wd_click :: "node \<Rightarrow> 'w \<Rightarrow> (driverError + unit) \<times> 'w"
  wd_sendKeys :: "node \<Rightarrow> string list \<Rightarrow> 'w \<Rightarrow> (driverError + unit) \<times> 'w"
  wd_getText :: "node \<Rightarrow> 'w \<Rightarrow> (driverError + string) \<times> 'w"
  wd_getAttribute :: "node \<Rightarrow> string \<Rightarrow> 'w \<Rightarrow> (driverError + string) \<times> 'w"
  wd_clear :: "node \<Rightarrow> 'w \<Rightarrow> (driverError + unit) \<times> 'w"
  wd_getSize :: "node \<Rightarrow> 'w \<Rightarrow> (driverError + ISize) \<times> 'w"
  wd_getRect :: "node \<Rightarrow> 'w \<Rightarrow> (driverError + IRectangle) \<times> 'w"
  wd_getLocation :: "node \<Rightarrow> 'w \<Rightarrow> (driverError + ILocation) \<times> 'w"
  wd_takeScreenshot :: "node \<Rightarrow> bool option \<Rightarrow> 'w \<Rightarrow> (driverError + string) \<times> 'w"
  wd_submit :: "node \<Rightarrow> 'w \<Rightarrow> (driverError + unit) \<times> 'w"
  wd_isSelected :: "node \<Rightarrow> 'w \<Rightarrow> (driverError + bool) \<times> 'w"

section \<open>Helpers\<close>

subsection \<open>TimeConstants and timeoutCondition\<close>

definition QuarterAMinute :: int where
  "QuarterAMinute = 15000"

text \<open>
  \<^verbatim>\<open>const dt = +new Date(); return ()=> (+new Date()) - dt <= timeoutMs;\<close>
  The timeout is \<open>None\<close> for \<^verbatim>\<open>undefined\<close>, which takes the default.
\<close>

definition timeoutCondition ::
  "'w driver \<Rightarrow> int option \<Rightarrow> 'w \<Rightarrow> ('w \<Rightarrow> bool \<times> 'w) \<times> 'w" where
  "timeoutCondition d timeoutMs w =
     (let limit = (case timeoutMs of None \<Rightarrow> QuarterAMinute | Some t \<Rightarrow> t);
          dt = fst (date_now d w)
      in (\<lambda>v. (fst (date_now d v) - dt \<le> limit, snd (date_now d v)), snd (date_now d w)))"

subsection \<open>getCleanStack\<close>

definition newline :: string where
  "newline = [CHR 0x0A]"

fun startsWith :: "string \<Rightarrow> string \<Rightarrow> bool" where
  "startsWith s [] = True"
| "startsWith [] (c # cs) = False"
| "startsWith (x # xs) (c # cs) = (x = c \<and> startsWith xs cs)"

fun str_includes :: "string \<Rightarrow> string \<Rightarrow> bool" where
  "str_includes [] sub = (sub = [])"
| "str_includes (x # xs) sub = (startsWith (x # xs) sub \<or> str_includes xs sub)"

fun split_newline :: "string \<Rightarrow> string list" where
  "split_newline [] = [ [] ]"
| "split_newline (c # cs) =
     (if c = CHR 0x0A then [] # split_newline cs
      else (case split_newline cs of
              [] \<Rightarrow> [ [c] ]
            | line # lines \<Rightarrow> (c # line) # lines))"

fun join_newline :: "string list \<Rightarrow> string" where
  "join_newline [] = []"
| "join_newline [line] = line"
| "join_newline (line # lines) = line @ newline @ join_newline lines"

definition getCleanStack :: "string option \<Rightarrow> string option" where
  "getCleanStack stk =
     (case stk of
        None \<Rightarrow> None
      | Some s \<Rightarrow>
          if s = [] then None
          else Some (join_newline
                 (filter (\<lambda>line. \<not> str_includes line ''driver.ts'') (split_newline s))))"

section \<open>The retry loop\<close>

text \<open>
  Every retrying method of driver.ts is the same loop around its own try block and
  catch block:
  \<^verbatim>\<open>
  let currentException;
  const retryTimeoutCondition = timeoutCondition(timeout);
  while (retryTimeoutCondition()){
      try { ... } catch (e) { ... currentException = e; }
  }
  throw currentException;
  \<close>
  A try block returns from the method, falls through to the next iteration, or throws.
  A catch block rethrows, returns from the method, or records the error. The loop may
  run forever (a clock that stands still), so it takes fuel: \<open>None\<close> is a loop that has
  not ended after that many iterations.
\<close>

datatype 'a step = Returned 'a | FellThrough

datatype 'a caught = Rethrow jsError | ReturnFromCatch 'a | Recorded jsError

fun retryLoop ::
  "nat \<Rightarrow> ('w \<Rightarrow> bool \<times> 'w) \<Rightarrow> ('w \<Rightarrow> (jsError + 'a step) \<times> 'w) \<Rightarrow> (jsError \<Rightarrow> 'a caught)
   \<Rightarrow> thrown \<Rightarrow> 'w \<Rightarrow> ((thrown + 'a) \<times> 'w) option" where
  "retryLoop 0 retryTimeoutCondition tryBlock catchBlock currentException w = None"
| "retryLoop (Suc fuel) retryTimeoutCondition tryBlock catchBlock currentException w =
     (if fst (retryTimeoutCondition w) then
        (case tryBlock (snd (retryTimeoutCondition w)) of
           (Inr (Returned v), w') \<Rightarrow> Some (Inr v, w')
         | (Inr FellThrough, w') \<Rightarrow>
             retryLoop fuel retryTimeoutCondition tryBlock catchBlock currentException w'
         | (Inl e, w') \<Rightarrow>
             (case catchBlock e of
                Rethrow e' \<Rightarrow> Some (Inl (Error e'), w')
              | ReturnFromCatch v \<Rightarrow> Some (Inr v, w')
              | Recorded e' \<Rightarrow>
                  retryLoop fuel retryTimeoutCondition tryBlock catchBlock (Error e') w'))
      else Some (Inl currentException, snd (retryTimeoutCondition w)))"

text \<open>
  The two catch blocks that the methods share word for word. The first is that of
  retryGetElement, retryFindElements and retryGetSortedElementsTexts:
  \<^verbatim>\<open>if(e instanceof InvalidSelectorError) throw e; e.stack = preservedStack;\<close>
  The second, of click, clickTillAttributeEqual, clickTillElementPresent, clickSendKeys,
  retryIsDisplayed, retryGetText and waitForVisible, has one more line in between:
  \<^verbatim>\<open>if (!e.getElementError) e.message += `\nLocators chain: ${this.chainedLocators}`;\<close>
\<close>

definition catchPlain :: "string option \<Rightarrow> jsError \<Rightarrow> 'a caught" where
  "catchPlain preservedStack e =
     (if errClass e = InvalidSelectorError then Rethrow e
      else Recorded (e\<lparr>stack := preservedStack\<rparr>))"

definition locatorsChain :: "locator list \<Rightarrow> string" where
  "locatorsChain ls = newline @ ''Locators chain: '' @ locators_toString ls"

definition annotate :: "locator list \<Rightarrow> jsError \<Rightarrow> jsError" where
  "annotate chainedLocators e =
     (if \<not> getElementError e
      then e\<lparr>message := message e @ locatorsChain chainedLocators\<rparr>
      else e)"

definition catchAnnotate :: "locator list \<Rightarrow> string option \<Rightarrow> jsError \<Rightarrow> 'a caught" where
  "catchAnnotate chainedLocators preservedStack e =
     (if errClass e = InvalidSelectorError then Rethrow e
      else Recorded ((annotate chainedLocators e)\<lparr>stack := preservedStack\<rparr>))"

section \<open>Element\<close>

text \<open>
  The methods read \<^verbatim>\<open>this.chainedLocators\<close> and never write it after the
  constructor, so each takes the chain's contents.
\<close>

definition getSlicedLocators :: "locator list \<Rightarrow> nat \<Rightarrow> locator list" where
  "getSlicedLocators chainedLocators index = take (index + 1) chainedLocators"

text \<open>
  getElement: the for loop over \<^verbatim>\<open>this.chainedLocators.entries()\<close>, with the
  locators still to visit, their index and \<^verbatim>\<open>localDriver\<close>.
\<close>

fun getElement_loop ::
  "'w driver \<Rightarrow> locator list \<Rightarrow> nat \<Rightarrow> locator list \<Rightarrow> node \<Rightarrow> 'w \<Rightarrow> (jsError + node) \<times> 'w" where
  "getElement_loop d chainedLocators index [] localDriver w = (Inr localDriver, w)"
| "getElement_loop d chainedLocators index (locator # rest) localDriver w =
     (case wd_findElement d localDriver locator w of
        (Inr found, w') \<Rightarrow> getElement_loop d chainedLocators (Suc index) rest found w'
      | (Inl r, w') \<Rightarrow>
          (Inl ((raised r)\<lparr>message := raisedMessage r
                    @ locatorsChain (getSlicedLocators chainedLocators index),
                  getElementError := True\<rparr>), w'))"

definition getElement :: "'w driver \<Rightarrow> locator list \<Rightarrow> 'w \<Rightarrow> (jsError + node) \<times> 'w" where
  "getElement d chainedLocators w = getElement_loop d chainedLocators 0 chainedLocators Root w"

definition retryGetElement_try ::
  "'w driver \<Rightarrow> locator list \<Rightarrow> 'w \<Rightarrow> (jsError + node step) \<times> 'w" where
  "retryGetElement_try d chainedLocators w =
     (case getElement d chainedLocators w of
        (Inl e, w') \<Rightarrow> (Inl e, w')
      | (Inr webElement, w') \<Rightarrow> (Inr (Returned webElement), w'))"

definition retryGetElement ::
  "nat \<Rightarrow> 'w driver \<Rightarrow> locator list \<Rightarrow> int option \<Rightarrow> 'w \<Rightarrow> ((thrown + node) \<times> 'w) option" where
  "retryGetElement fuel d chainedLocators timeout w =
     (let preservedStack = getCleanStack (error_stack d w);
          retryTimeoutCondition = fst (timeoutCondition d timeout w)
      in retryLoop fuel retryTimeoutCondition (retryGetElement_try d chainedLocators)
           (catchPlain preservedStack) Undefined (snd (timeoutCondition d timeout w)))"

definition click_try ::
  "'w driver \<Rightarrow> locator list \<Rightarrow> 'w \<Rightarrow> (jsError + unit step) \<times> 'w" where
  "click_try d chainedLocators w =
     (case getElement d chainedLocators w of
        (Inl e, w1) \<Rightarrow> (Inl e, w1)
      | (Inr webElement, w1) \<Rightarrow>
          (case wd_isEnabled d webElement w1 of
             (Inl r, w2) \<Rightarrow> (Inl (raised r), w2)
           | (Inr enabled, w2) \<Rightarrow>
               if enabled then
                 (case wd_click d webElement w2 of
                    (Inl r, w3) \<Rightarrow> (Inl (raised r), w3)
                  | (Inr u, w3) \<Rightarrow> (Inr (Returned ()), w3))
               else (Inr FellThrough, w2)))"

definition click ::
  "nat \<Rightarrow> 'w driver \<Rightarrow> locator list \<Rightarrow> int option \<Rightarrow> 'w \<Rightarrow> ((thrown + unit) \<times> 'w) option" where
  "click fuel d chainedLocators retryTimeout w =
     (let preservedStack = getCleanStack (error_stack d w);
          retryTimeoutCondition = fst (timeoutCondition d retryTimeout w)
      in retryLoop fuel retryTimeoutCondition (click_try d chainedLocators)
           (catchAnnotate chainedLocators preservedStack) Undefined
           (snd (timeoutCondition d retryTimeout w)))"

definition clickTillAttributeEqual_try ::
  "'w driver \<Rightarrow> locator list \<Rightarrow> string \<Rightarrow> string \<Rightarrow> 'w \<Rightarrow> (jsError + unit step) \<times> 'w" where
  "clickTillAttributeEqual_try d chainedLocators name val w =
     (case getElement d chainedLocators w of
        (Inl e, w1) \<Rightarrow> (Inl e, w1)
      | (Inr webElement, w1) \<Rightarrow>
          (case wd_click d webElement w1 of
             (Inl r, w2) \<Rightarrow> (Inl (raised r), w2)
           | (Inr u, w2) \<Rightarrow>
               (case wd_getAttribute d webElement name w2 of
                  (Inl r, w3) \<Rightarrow> (Inl (raised r), w3)
                | (Inr attr, w3) \<Rightarrow>
                    if str_includes attr val then (Inr (Returned ()), w3)
                    else (Inr FellThrough, w3))))"

definition clickTillAttributeEqual ::
  "nat \<Rightarrow> 'w driver \<Rightarrow> locator list \<Rightarrow> string \<Rightarrow> string \<Rightarrow> 'w
   \<Rightarrow> ((thrown + unit) \<times> 'w) option" where
  "clickTillAttributeEqual fuel d chainedLocators name val w =
     (let preservedStack = getCleanStack (error_stack d w);
          retryTimeoutCondition = fst (timeoutCondition d None w)
      in retryLoop fuel retryTimeoutCondition
           (clickTillAttributeEqual_try d chainedLocators name val)
           (catchAnnotate chainedLocators preservedStack) Undefined
           (snd (timeoutCondition d None w)))"

text \<open>isPresent: not found and stale are \<^verbatim>\<open>false\<close>, any other error is thrown on.\<close>

definition isPresent :: "'w driver \<Rightarrow> locator list \<Rightarrow> 'w \<Rightarrow> (jsError + bool) \<times> 'w" where
  "isPresent d chainedLocators w =
     (case getElement d chainedLocators w of
        (Inr webElement, w') \<Rightarrow> (Inr True, w')
      | (Inl e, w') \<Rightarrow>
          if errClass e = NoSuchElementError \<or> errClass e = StaleElementReferenceError
          then (Inr False, w')
          else (Inl e, w'))"

definition clickTillElementPresent_try ::
  "'w driver \<Rightarrow> locator list \<Rightarrow> locator list \<Rightarrow> 'w \<Rightarrow> (jsError + unit step) \<times> 'w" where
  "clickTillElementPresent_try d chainedLocators element w =
     (case getElement d chainedLocators w of
        (Inl e, w1) \<Rightarrow> (Inl e, w1)
      | (Inr webElement, w1) \<Rightarrow>
          (case wd_click d webElement w1 of
             (Inl r, w2) \<Rightarrow> (Inl (raised r), w2)
           | (Inr u, w2) \<Rightarrow>
               (case isPresent d element w2 of
                  (Inl e, w3) \<Rightarrow> (Inl e, w3)
                | (Inr present, w3) \<Rightarrow>
                    if present then (Inr (Returned ()), w3) else (Inr FellThrough, w3))))"

definition clickTillElementPresent ::
  "nat \<Rightarrow> 'w driver \<Rightarrow> locator list \<Rightarrow> locator list \<Rightarrow> 'w
   \<Rightarrow> ((thrown + unit) \<times> 'w) option" where
  "clickTillElementPresent fuel d chainedLocators element w =
     (let preservedStack = getCleanStack (error_stack d w);
          retryTimeoutCondition = fst (timeoutCondition d None w)
      in retryLoop fuel retryTimeoutCondition
           (clickTillElementPresent_try d chainedLocators element)
           (catchAnnotate chainedLocators preservedStack) Undefined
           (snd (timeoutCondition d None w)))"

definition clickSendKeys_try ::
  "'w driver \<Rightarrow> locator list \<Rightarrow> string list \<Rightarrow> 'w \<Rightarrow> (jsError + unit step) \<times> 'w" where
  "clickSendKeys_try d chainedLocators var_args w =
     (case getElement d chainedLocators w of
        (Inl e, w1) \<Rightarrow> (Inl e, w1)
      | (Inr webElement, w1) \<Rightarrow>
          (case wd_isEnabled d webElement w1 of
             (Inl r, w2) \<Rightarrow> (Inl (raised r), w2)
           | (Inr enabled, w2) \<Rightarrow>
               if enabled then
                 (case wd_click d webElement w2 of
                    (Inl r, w3) \<Rightarrow> (Inl (raised r), w3)
                  | (Inr u, w3) \<Rightarrow>
                      (case wd_sendKeys d webElement var_args w3 of
                         (Inl r, w4) \<Rightarrow> (Inl (raised r), w4)
                       | (Inr u', w4) \<Rightarrow> (Inr (Returned ()), w4)))
               else (Inr FellThrough, w2)))"

definition clickSendKeys ::
  "nat \<Rightarrow> 'w driver \<Rightarrow> locator list \<Rightarrow> string list \<Rightarrow> 'w \<Rightarrow> ((thrown + unit) \<times> 'w) option" where
  "clickSendKeys fuel d chainedLocators var_args w =
     (let preservedStack = getCleanStack (error_stack d w);
          retryTimeoutCondition = fst (timeoutCondition d None w)
      in retryLoop fuel retryTimeoutCondition (clickSendKeys_try d chainedLocators var_args)
           (catchAnnotate chainedLocators preservedStack) Undefined
           (snd (timeoutCondition d None w)))"

definition retryIsDisplayed_try ::
  "'w driver \<Rightarrow> locator list \<Rightarrow> 'w \<Rightarrow> (jsError + bool step) \<times> 'w" where
  "retryIsDisplayed_try d chainedLocators w =
     (case getElement d chainedLocators w of
        (Inl e, w1) \<Rightarrow> (Inl e, w1)
      | (Inr webElement, w1) \<Rightarrow>
          (case wd_isDisplayed d webElement w1 of
             (Inl r, w2) \<Rightarrow> (Inl (raised r), w2)
           | (Inr displayed, w2) \<Rightarrow> (Inr (Returned displayed), w2)))"

definition retryIsDisplayed ::
  "nat \<Rightarrow> 'w driver \<Rightarrow> locator list \<Rightarrow> 'w \<Rightarrow> ((thrown + bool) \<times> 'w) option" where
  "retryIsDisplayed fuel d chainedLocators w =
     (let preservedStack = getCleanStack (error_stack d w);
          retryTimeoutCondition = fst (timeoutCondition d None w)
      in retryLoop fuel retryTimeoutCondition (retryIsDisplayed_try d chainedLocators)
           (catchAnnotate chainedLocators preservedStack) Undefined
           (snd (timeoutCondition d None w)))"

definition retryGetText_try ::
  "'w driver \<Rightarrow> locator list \<Rightarrow> 'w \<Rightarrow> (jsError + string step) \<times> 'w" where
  "retryGetText_try d chainedLocators w =
     (case getElement d chainedLocators w of
        (Inl e, w1) \<Rightarrow> (Inl e, w1)
      | (Inr webElement, w1) \<Rightarrow>
          (case wd_getText d webElement w1 of
             (Inl r, w2) \<Rightarrow> (Inl (raised r), w2)
           | (Inr text, w2) \<Rightarrow> (Inr (Returned text), w2)))"

definition retryGetText ::
  "nat \<Rightarrow> 'w driver \<Rightarrow> locator list \<Rightarrow> 'w \<Rightarrow> ((thrown + string) \<times> 'w) option" where
  "retryGetText fuel d chainedLocators w =
     (let preservedStack = getCleanStack (error_stack d w);
          retryTimeoutCondition = fst (timeoutCondition d None w)
      in retryLoop fuel retryTimeoutCondition (retryGetText_try d chainedLocators)
           (catchAnnotate chainedLocators preservedStack) Undefined
           (snd (timeoutCondition d None w)))"

definition waitForVisible_try ::
  "'w driver \<Rightarrow> locator list \<Rightarrow> 'w \<Rightarrow> (jsError + unit step) \<times> 'w" where
  "waitForVisible_try d chainedLocators w =
     (case getElement d chainedLocators w of
        (Inl e, w1) \<Rightarrow> (Inl e, w1)
      | (Inr webElement, w1) \<Rightarrow>
          (case wd_isDisplayed d webElement w1 of
             (Inl r, w2) \<Rightarrow> (Inl (raised r), w2)
           | (Inr displayed, w2) \<Rightarrow>
               if displayed then (Inr (Returned ()), w2) else (Inr FellThrough, w2)))"

definition waitForVisible ::
  "nat \<Rightarrow> 'w driver \<Rightarrow> locator list \<Rightarrow> 'w \<Rightarrow> ((thrown + unit) \<times> 'w) option" where
  "waitForVisible fuel d chainedLocators w =
     (let preservedStack = getCleanStack (error_stack d w);
          retryTimeoutCondition = fst (timeoutCondition d None w)
      in retryLoop fuel retryTimeoutCondition (waitForVisible_try d chainedLocators)
           (catchAnnotate chainedLocators preservedStack) Undefined
           (snd (timeoutCondition d None w)))"

text \<open>
  waitForNotPresent: the try block only resolves the chain; its catch block returns on
  not found and on stale, and records every other error but the invalid selector.
\<close>

definition waitForNotPresent_try ::
  "'w driver \<Rightarrow> locator list \<Rightarrow> 'w \<Rightarrow> (jsError + unit step) \<times> 'w" where
  "waitForNotPresent_try d chainedLocators w =
     (case getElement d chainedLocators w of
        (Inl e, w1) \<Rightarrow> (Inl e, w1)
      | (Inr webElement, w1) \<Rightarrow> (Inr FellThrough, w1))"

definition waitForNotPresent_catch :: "string option \<Rightarrow> jsError \<Rightarrow> unit caught" where
  "waitForNotPresent_catch preservedStack e =
     (if errClass e = InvalidSelectorError then Rethrow e
      else if errClass e = NoSuchElementError \<or> errClass e = StaleElementReferenceError
      then ReturnFromCatch ()
      else Recorded (e\<lparr>stack := preservedStack\<rparr>))"

definition waitForNotPresent ::
  "nat \<Rightarrow> 'w driver \<Rightarrow> locator list \<Rightarrow> 'w \<Rightarrow> ((thrown + unit) \<times> 'w) option" where
  "waitForNotPresent fuel d chainedLocators w =
     (let preservedStack = getCleanStack (error_stack d w);
          retryTimeoutCondition = fst (timeoutCondition d None w)
      in retryLoop fuel retryTimeoutCondition (waitForNotPresent_try d chainedLocators)
           (waitForNotPresent_catch preservedStack) Undefined
           (snd (timeoutCondition d None w)))"

definition retryFindElements_try ::
  "'w driver \<Rightarrow> locator list \<Rightarrow> locator \<Rightarrow> 'w \<Rightarrow> (jsError + node list step) \<times> 'w" where
  "retryFindElements_try d chainedLocators locator w =
     (case getElement d chainedLocators w of
        (Inl e, w1) \<Rightarrow> (Inl e, w1)
      | (Inr webElement, w1) \<Rightarrow>
          (case wd_findElements d webElement locator w1 of
             (Inl r, w2) \<Rightarrow> (Inl (raised r), w2)
           | (Inr found, w2) \<Rightarrow> (Inr (Returned found), w2)))"

definition retryFindElements ::
  "nat \<Rightarrow> 'w driver \<Rightarrow> locator list \<Rightarrow> locator \<Rightarrow> 'w \<Rightarrow> ((thrown + node list) \<times> 'w) option" where
  "retryFindElements fuel d chainedLocators locator w =
     (let preservedStack = getCleanStack (error_stack d w);
          retryTimeoutCondition = fst (timeoutCondition d None w)
      in retryLoop fuel retryTimeoutCondition (retryFindElements_try d chainedLocators locator)
           (catchPlain preservedStack) Undefined
           (snd (timeoutCondition d None w)))"

text \<open>
  Element.findElements, without retry: its catch block appends the whole chain and the
  collection's locator to every error, whether getElement marked it or not.
\<close>

definition findElements_catch :: "locator list \<Rightarrow> locator \<Rightarrow> jsError \<Rightarrow> jsError" where
  "findElements_catch chainedLocators locator e =
     e\<lparr>message := message e @ locatorsChain chainedLocators
            @ '' All: '' @ locator_toString locator,
       getElementError := True\<rparr>"

definition Element_findElements ::
  "'w driver \<Rightarrow> locator list \<Rightarrow> locator \<Rightarrow> 'w \<Rightarrow> (jsError + node list) \<times> 'w" where
  "Element_findElements d chainedLocators locator w =
     (case getElement d chainedLocators w of
        (Inl e, w1) \<Rightarrow> (Inl (findElements_catch chainedLocators locator e), w1)
      | (Inr webElement, w1) \<Rightarrow>
          (case wd_findElements d webElement locator w1 of
             (Inl r, w2) \<Rightarrow> (Inl (findElements_catch chainedLocators locator (raised r)), w2)
           | (Inr found, w2) \<Rightarrow> (Inr found, w2)))"

section \<open>retryExpect\<close>

text \<open>
  \<^verbatim>\<open>assert.deepStrictEqual\<close> of Node is structural equality; the text of its
  AssertionError is the assertion library's, a parameter here.
\<close>

definition deepStrictEqual :: "('a \<Rightarrow> 'a \<Rightarrow> string) \<Rightarrow> 'a \<Rightarrow> 'a \<Rightarrow> jsError + unit" where
  "deepStrictEqual describe actual expected =
     (if actual = expected then Inr ()
      else Inl \<lparr>errClass = AssertionError, message = describe actual expected,
                stack = None, getElementError = False\<rparr>)"

text \<open>
  The options after destructuring with defaults: a message that is absent is
  \<^verbatim>\<open>null\<close>, \<open>None\<close> here.
\<close>

record expectOptions =
  opt_message :: "string option"
  opt_timeout :: "int option"
  opt_concatenateMessages :: bool

definition truthy :: "string option \<Rightarrow> bool" where
  "truthy m = (case m of None \<Rightarrow> False | Some s \<Rightarrow> s \<noteq> [])"

definition newAssertionError :: "string \<Rightarrow> jsError" where
  "newAssertionError m =
     \<lparr>errClass = AssertionError, message = m, stack = None, getElementError = False\<rparr>"

text \<open>Reading \<^verbatim>\<open>exception.message\<close> of \<^verbatim>\<open>undefined\<close>: the engine's TypeError.\<close>

definition undefinedMessageTypeError :: jsError where
  "undefinedMessageTypeError =
     \<lparr>errClass = TypeError, message = ''Cannot read properties of undefined'',
      stack = None, getElementError = False\<rparr>"

text \<open>
  The statement after the loop. The message is computed first:
  \<^verbatim>\<open>message ? concatenateMessages ? [message, exception.message].join('\n'): message : exception.message\<close>
\<close>

definition retryExpect_throw :: "expectOptions \<Rightarrow> thrown \<Rightarrow> thrown" where
  "retryExpect_throw opts exception =
     (if truthy (opt_message opts) then
        (if opt_concatenateMessages opts then
           (case exception of
              Undefined \<Rightarrow> Error undefinedMessageTypeError
            | Error e \<Rightarrow>
                Error (newAssertionError (the (opt_message opts) @ newline @ message e)))
         else Error (newAssertionError (the (opt_message opts))))
      else
        (case exception of
           Undefined \<Rightarrow> Error undefinedMessageTypeError
         | Error e \<Rightarrow> Error (newAssertionError (message e))))"

text \<open>
  \<^verbatim>\<open>await foo()\<close> stands outside the try block: what foo throws leaves retryExpect
  at once. foo may itself be a retry loop, so it takes part in the fuel.
\<close>

fun retryExpect_loop ::
  "nat \<Rightarrow> ('w \<Rightarrow> bool \<times> 'w) \<Rightarrow> ('w \<Rightarrow> ((thrown + 'a) \<times> 'w) option) \<Rightarrow> ('a \<Rightarrow> 'a \<Rightarrow> string)
   \<Rightarrow> 'a \<Rightarrow> expectOptions \<Rightarrow> thrown \<Rightarrow> 'w \<Rightarrow> ((thrown + unit) \<times> 'w) option" where
  "retryExpect_loop 0 retryTimeoutCondition foo describe expected opts exception w = None"
| "retryExpect_loop (Suc fuel) retryTimeoutCondition foo describe expected opts exception w =
     (if fst (retryTimeoutCondition w) then
        (case foo (snd (retryTimeoutCondition w)) of
           None \<Rightarrow> None
         | Some (Inl x, w') \<Rightarrow> Some (Inl x, w')
         | Some (Inr actual, w') \<Rightarrow>
             (case deepStrictEqual describe actual expected of
                Inr u \<Rightarrow> Some (Inr (), w')
              | Inl e \<Rightarrow>
                  retryExpect_loop fuel retryTimeoutCondition foo describe expected opts
                    (Error e) w'))
      else Some (Inl (retryExpect_throw opts exception), snd (retryTimeoutCondition w)))"

definition retryExpect ::
  "nat \<Rightarrow> 'w driver \<Rightarrow> ('a \<Rightarrow> 'a \<Rightarrow> string) \<Rightarrow> ('w \<Rightarrow> ((thrown + 'a) \<times> 'w) option) \<Rightarrow> 'a
   \<Rightarrow> expectOptions \<Rightarrow> 'w \<Rightarrow> ((thrown + unit) \<times> 'w) option" where
  "retryExpect fuel d describe foo expected opts w =
     (let retryTimeoutCondition = fst (timeoutCondition d (opt_timeout opts) w)
      in retryExpect_loop fuel retryTimeoutCondition foo describe expected opts Undefined
           (snd (timeoutCondition d (opt_timeout opts) w)))"

section \<open>Collections\<close>

text \<open>
  The for-of loop of getSortedElementsTexts, pushing each text onto
  \<^verbatim>\<open>elementTextList\<close>; an error of getText leaves the method as it is.
\<close>

fun getTexts ::
  "'w driver \<Rightarrow> node list \<Rightarrow> string list \<Rightarrow> 'w \<Rightarrow> (jsError + string list) \<times> 'w" where
  "getTexts d [] elementTextList w = (Inr elementTextList, w)"
| "getTexts d (webElement # rest) elementTextList w =
     (case wd_getText d webElement w of
        (Inl r, w') \<Rightarrow> (Inl (raised r), w')
      | (Inr text, w') \<Rightarrow> getTexts d rest (elementTextList @ [text]) w')"

text \<open>
  \<^verbatim>\<open>Array.prototype.sort()\<close> without a comparator orders strings by their code
  units, the lexicographic order of \<open>string\<close>.
\<close>

record chainedElementAll =
  internalElement :: "locator list"
  cea_locator :: locator

definition ChainedElementAll_getSortedElementsTexts ::
  "'w driver \<Rightarrow> chainedElementAll \<Rightarrow> 'w \<Rightarrow> (jsError + string list) \<times> 'w" where
  "ChainedElementAll_getSortedElementsTexts d this w =
     (case Element_findElements d (internalElement this) (cea_locator this) w of
        (Inl e, w1) \<Rightarrow> (Inl e, w1)
      | (Inr found, w1) \<Rightarrow>
          (case getTexts d found [] w1 of
             (Inl e, w2) \<Rightarrow> (Inl e, w2)
           | (Inr elementTextList, w2) \<Rightarrow> (Inr (sort elementTextList), w2)))"

definition ChainedElementAll_retryGetSortedElementsTexts_try ::
  "'w driver \<Rightarrow> chainedElementAll \<Rightarrow> 'w \<Rightarrow> (jsError + string list step) \<times> 'w" where
  "ChainedElementAll_retryGetSortedElementsTexts_try d this w =
     (case ChainedElementAll_getSortedElementsTexts d this w of
        (Inl e, w') \<Rightarrow> (Inl e, w')
      | (Inr texts, w') \<Rightarrow> (Inr (Returned texts), w'))"

definition ChainedElementAll_retryGetSortedElementsTexts ::
  "nat \<Rightarrow> 'w driver \<Rightarrow> chainedElementAll \<Rightarrow> 'w \<Rightarrow> ((thrown + string list) \<times> 'w) option" where
  "ChainedElementAll_retryGetSortedElementsTexts fuel d this w =
     (let preservedStack = getCleanStack (error_stack d w);
          retryTimeoutCondition = fst (timeoutCondition d None w)
      in retryLoop fuel retryTimeoutCondition
           (ChainedElementAll_retryGetSortedElementsTexts_try d this)
           (catchPlain preservedStack) Undefined
           (snd (timeoutCondition d None w)))"

text \<open>
  The caller's \<^verbatim>\<open>list\<close> is an array object: a reference into a store of string
  arrays. \<^verbatim>\<open>list.sort()\<close> sorts that array in place and returns the same
  reference; it is evaluated as an argument, before retryExpect is entered. The store
  after the call is the first component of the result.
\<close>

type_synonym stringArrays = "nat \<Rightarrow> string list"

definition expectSortedListToEqual ::
  "nat \<Rightarrow> 'w driver \<Rightarrow> (string list \<Rightarrow> string list \<Rightarrow> string) \<Rightarrow> chainedElementAll \<Rightarrow> nat
   \<Rightarrow> string option \<Rightarrow> stringArrays \<Rightarrow> 'w \<Rightarrow> stringArrays \<times> ((thrown + unit) \<times> 'w) option" where
  "expectSortedListToEqual fuel d describe this list failMessage arrays w =
     (let arrays' = arrays(list := sort (arrays list))
      in (arrays',
          retryExpect fuel d describe
            (ChainedElementAll_retryGetSortedElementsTexts fuel d this) (arrays' list)
            \<lparr>opt_message = failMessage, opt_timeout = None, opt_concatenateMessages = True\<rparr>
            w))"

record elementAll =
  ea_ownLocator :: locator

definition ElementAll_findElements ::
  "'w driver \<Rightarrow> elementAll \<Rightarrow> 'w \<Rightarrow> (jsError + node list) \<times> 'w" where
  "ElementAll_findElements d this w =
     (case wd_findElements d Root (ea_ownLocator this) w of
        (Inl r, w') \<Rightarrow> (Inl (raised r), w')
      | (Inr found, w') \<Rightarrow> (Inr found, w'))"

definition ElementAll_getSortedElementsTexts ::
  "'w driver \<Rightarrow> elementAll \<Rightarrow> 'w \<Rightarrow> (jsError + string list) \<times> 'w" where
  "ElementAll_getSortedElementsTexts d this w =
     (case wd_findElements d Root (ea_ownLocator this) w of
        (Inl r, w1) \<Rightarrow> (Inl (raised r), w1)
      | (Inr found, w1) \<Rightarrow>
          (case getTexts d found [] w1 of
             (Inl e, w2) \<Rightarrow> (Inl e, w2)
           | (Inr elementTextList, w2) \<Rightarrow> (Inr (sort elementTextList), w2)))"

definition ElementAll_retryGetSortedElementsTexts_try ::
  "'w driver \<Rightarrow> elementAll \<Rightarrow> 'w \<Rightarrow> (jsError + string list step) \<times> 'w" where
  "ElementAll_retryGetSortedElementsTexts_try d this w =
     (case ElementAll_getSortedElementsTexts d this w of
        (Inl e, w') \<Rightarrow> (Inl e, w')
      | (Inr texts, w') \<Rightarrow> (Inr (Returned texts), w'))"

definition ElementAll_retryGetSortedElementsTexts ::
  "nat \<Rightarrow> 'w driver \<Rightarrow> elementAll \<Rightarrow> 'w \<Rightarrow> ((thrown + string list) \<times> 'w) option" where
  "ElementAll_retryGetSortedElementsTexts fuel d this w =
     (let preservedStack = getCleanStack (error_stack d w);
          retryTimeoutCondition = fst (timeoutCondition d None w)
      in retryLoop fuel retryTimeoutCondition
           (ElementAll_retryGetSortedElementsTexts_try d this)
           (catchPlain preservedStack) Undefined
           (snd (timeoutCondition d None w)))"

definition expectSortedListToBe ::
  "nat \<Rightarrow> 'w driver \<Rightarrow> (string list \<Rightarrow> string list \<Rightarrow> string) \<Rightarrow> elementAll \<Rightarrow> nat
   \<Rightarrow> string option \<Rightarrow> stringArrays \<Rightarrow> 'w \<Rightarrow> stringArrays \<times> ((thrown + unit) \<times> 'w) option" where
  "expectSortedListToBe fuel d describe this list failMessage arrays w =
     (let arrays' = arrays(list := sort (arrays list))
      in (arrays',
          retryExpect fuel d describe
            (ElementAll_retryGetSortedElementsTexts fuel d this) (arrays' list)
            \<lparr>opt_message = failMessage, opt_timeout = None, opt_concatenateMessages = True\<rparr>
            w))"

text \<open>The factories of document-scoped collections, \<^verbatim>\<open>$$\<close> and \<^verbatim>\<open>xx\<close>.\<close>

definition dollar_dollar :: "string \<Rightarrow> elementAll" where
  "dollar_dollar cssSelector = \<lparr>ea_ownLocator = By_css cssSelector\<rparr>"

definition xx :: "string \<Rightarrow> elementAll" where
  "xx xpath = \<lparr>ea_ownLocator = By_css xpath\<rparr>"

section \<open>Constructing Elements\<close>

text \<open>
  An Element holds its chain in an array object of its own. Arrays live in a store and
  are named by references, so that sharing between a parent and the handles derived
  from it would show.
\<close>

record heap =
  locatorArrays :: "nat \<Rightarrow> locator list"
  nextRef :: nat

record element =
  ownLocator :: "locator option"
  chainedLocators :: nat

definition newArray :: "locator list \<Rightarrow> heap \<Rightarrow> nat \<times> heap" where
  "newArray items h =
     (nextRef h,
      h\<lparr>locatorArrays := (locatorArrays h)(nextRef h := items), nextRef := Suc (nextRef h)\<rparr>)"

definition push :: "nat \<Rightarrow> locator list \<Rightarrow> heap \<Rightarrow> heap" where
  "push a items h = h\<lparr>locatorArrays := (locatorArrays h)(a := locatorArrays h a @ items)\<rparr>"

definition chainOf :: "heap \<Rightarrow> element \<Rightarrow> locator list" where
  "chainOf h e = locatorArrays h (chainedLocators e)"

text \<open>
  The constructor takes one locator or an array of locators. The field initialiser
  \<^verbatim>\<open>chainedLocators: Locator[] = []\<close> allocates the array; the body pushes onto
  it. The last element of an empty array is \<^verbatim>\<open>undefined\<close>, \<open>None\<close> here.
\<close>

datatype locatorArg = Single locator | Array nat

definition Element_new :: "locatorArg \<Rightarrow> heap \<Rightarrow> element \<times> heap" where
  "Element_new locator h =
     (let this = fst (newArray [] h); h0 = snd (newArray [] h)
      in case locator of
           Array a \<Rightarrow>
             (let h1 = push this (locatorArrays h0 a) h0
              in (\<lparr>ownLocator =
                     (if locatorArrays h1 this = [] then None
                      else Some (last (locatorArrays h1 this))),
                   chainedLocators = this\<rparr>, h1))
         | Single l \<Rightarrow>
             (\<lparr>ownLocator = Some l, chainedLocators = this\<rparr>, push this [l] h0))"

definition currentLocator :: "element \<Rightarrow> jsError + locator" where
  "currentLocator this =
     (case ownLocator this of
        Some l \<Rightarrow> Inr l
      | None \<Rightarrow> Inl \<lparr>errClass = TypeError, message = ''Locator is null'',
                       stack = None, getElementError = False\<rparr>)"

text \<open>
  \<^verbatim>\<open>new Element([...this.chainedLocators, By.css(cssSelector)])\<close>: the spread builds
  a new array, which the constructor then copies into the new Element's own.
\<close>

definition Element_dollar :: "element \<Rightarrow> string \<Rightarrow> heap \<Rightarrow> element \<times> heap" where
  "Element_dollar this cssSelector h =
     (let spread = newArray (locatorArrays h (chainedLocators this) @ [By_css cssSelector]) h
      in Element_new (Array (fst spread)) (snd spread))"

definition Element_xpath :: "element \<Rightarrow> string \<Rightarrow> heap \<Rightarrow> element \<times> heap" where
  "Element_xpath this xpath h =
     (let spread = newArray (locatorArrays h (chainedLocators this) @ [By_xpath xpath]) h
      in Element_new (Array (fst spread)) (snd spread))"

definition Element_element ::
  "element \<Rightarrow> locator + element \<Rightarrow> heap \<Rightarrow> (jsError + element) \<times> heap" where
  "Element_element this locator h =
     (case locator of
        Inr other \<Rightarrow>
          (case currentLocator other of
             Inl e \<Rightarrow> (Inl e, h)
           | Inr l \<Rightarrow>
               (let spread = newArray (locatorArrays h (chainedLocators this) @ [l]) h;
                    made = Element_new (Array (fst spread)) (snd spread)
                in (Inr (fst made), snd made)))
      | Inl l \<Rightarrow>
          (let spread = newArray (locatorArrays h (chainedLocators this) @ [l]) h;
               made = Element_new (Array (fst spread)) (snd spread)
           in (Inr (fst made), snd made)))"

text \<open>The factories \<^verbatim>\<open>$\<close>, \<^verbatim>\<open>xpath\<close> and \<^verbatim>\<open>element\<close>.\<close>

definition dollar :: "string \<Rightarrow> heap \<Rightarrow> element \<times> heap" where
  "dollar cssSelector h = Element_new (Single (By_css cssSelector)) h"

definition xpath :: "string \<Rightarrow> heap \<Rightarrow> element \<times> heap" where
  "xpath x h = Element_new (Single (By_xpath x)) h"

definition element :: "locator \<Rightarrow> heap \<Rightarrow> element \<times> heap" where
  "element locator h = Element_new (Single locator) h"

section \<open>Operations that do not retry the action\<close>














section \<open>Expectations\<close>










section \<open>Runs of attempts\<close>

text \<open>
  A run lists what the first attempts of a loop did: for each, the outcome of the try
  block and the world it left. \<open>attemptsRun\<close> holds when each attempt of the run was
  made within the budget and had that outcome; \<open>endOf\<close> is the world after the run.
\<close>

fun attemptsRun ::
  "('w \<Rightarrow> bool \<times> 'w) \<Rightarrow> ('w \<Rightarrow> 'r \<times> 'w) \<Rightarrow> 'w \<Rightarrow> ('r \<times> 'w) list \<Rightarrow> bool" where
  "attemptsRun retryTimeoutCondition tryBlock w [] = True"
| "attemptsRun retryTimeoutCondition tryBlock w (a # run) =
     (fst (retryTimeoutCondition w) \<and> tryBlock (snd (retryTimeoutCondition w)) = a
      \<and> attemptsRun retryTimeoutCondition tryBlock (snd a) run)"

definition endOf :: "'w \<Rightarrow> ('r \<times> 'w) list \<Rightarrow> 'w" where
  "endOf w run = (if run = [] then w else snd (last run))"

text \<open>
  An outcome after which the loop goes on: the try block fell through, or it threw an
  error that the catch block records (\<open>R\<close> says which errors those are). \<open>fails\<close> is
  the second case alone. For all loops but that of waitForNotPresent the recorded
  errors are the \<open>retryable\<close> ones.
\<close>

definition retryable :: "jsError \<Rightarrow> bool" where
  "retryable e = (errClass e \<noteq> InvalidSelectorError)"

fun continues :: "(jsError \<Rightarrow> bool) \<Rightarrow> jsError + 'a step \<Rightarrow> bool" where
  "continues R (Inl e) = R e"
| "continues R (Inr FellThrough) = True"
| "continues R (Inr (Returned v)) = False"

fun fails :: "(jsError \<Rightarrow> bool) \<Rightarrow> jsError + 'a \<Rightarrow> bool" where
  "fails R (Inl e) = R e"
| "fails R (Inr v) = False"

text \<open>The value of \<^verbatim>\<open>currentException\<close> after a run, when the catch block stores \<open>f e\<close>.\<close>

fun lastRecorded ::
  "(jsError \<Rightarrow> jsError) \<Rightarrow> thrown \<Rightarrow> ((jsError + 'a) \<times> 'w) list \<Rightarrow> thrown" where
  "lastRecorded f currentException [] = currentException"
| "lastRecorded f currentException ((Inl e, w) # run) = lastRecorded f (Error (f e)) run"
| "lastRecorded f currentException ((Inr v, w) # run) = lastRecorded f currentException run"

text \<open>
  The loop of a method that was entered in world \<open>w\<close> with the given timeout: the
  budget predicate it checks, the world in which its first check is made, and the stack
  it preserved.
\<close>

abbreviation budget :: "'w driver \<Rightarrow> int option \<Rightarrow> 'w \<Rightarrow> 'w \<Rightarrow> bool \<times> 'w" where
  "budget d timeout w \<equiv> fst (timeoutCondition d timeout w)"

abbreviation entered :: "'w driver \<Rightarrow> int option \<Rightarrow> 'w \<Rightarrow> 'w" where
  "entered d timeout w \<equiv> snd (timeoutCondition d timeout w)"

abbreviation preserved :: "'w driver \<Rightarrow> 'w \<Rightarrow> string option" where
  "preserved d w \<equiv> getCleanStack (error_stack d w)"

text \<open>
  Every attempt of the run was made within the budget and failed with a retryable error;
  then the budget predicate reported the timeout. \<open>afterTimeout\<close> is the world that
  this last check leaves.
\<close>

definition failsUntilTimeout ::
  "'w driver \<Rightarrow> int option \<Rightarrow> ('w \<Rightarrow> (jsError + 'a) \<times> 'w) \<Rightarrow> 'w \<Rightarrow> ((jsError + 'a) \<times> 'w) list
   \<Rightarrow> bool" where
  "failsUntilTimeout d timeout tryBlock w run =
     (run \<noteq> [] \<and> attemptsRun (budget d timeout w) tryBlock (entered d timeout w) run
      \<and> list_all (\<lambda>a. fails retryable (fst a)) run
      \<and> \<not> fst (budget d timeout w (endOf (entered d timeout w) run)))"

definition afterTimeout ::
  "'w driver \<Rightarrow> int option \<Rightarrow> 'w \<Rightarrow> ('r \<times> 'w) list \<Rightarrow> 'w" where
  "afterTimeout d timeout w run = snd (budget d timeout w (endOf (entered d timeout w) run))"

text \<open>
  After a run of attempts that let the loop go on, one more attempt is made within the
  budget and throws the error \<open>e\<close>, leaving the world \<open>w'\<close>.
\<close>

definition throwsAfter ::
  "'w driver \<Rightarrow> int option \<Rightarrow> ('w \<Rightarrow> (jsError + 'a step) \<times> 'w) \<Rightarrow> (jsError \<Rightarrow> bool) \<Rightarrow> 'w
   \<Rightarrow> ((jsError + 'a step) \<times> 'w) list \<Rightarrow> jsError \<Rightarrow> 'w \<Rightarrow> bool" where
  "throwsAfter d timeout tryBlock R w run e w' =
     (attemptsRun (budget d timeout w) tryBlock (entered d timeout w) run
      \<and> list_all (\<lambda>a. continues R (fst a)) run
      \<and> fst (budget d timeout w (endOf (entered d timeout w) run))
      \<and> tryBlock (snd (budget d timeout w (endOf (entered d timeout w) run))) = (Inl e, w'))"

text \<open>
  The same for retryExpect: each attempt of the run was made within the budget, and
  \<open>foo\<close> returned a value other than the expected one.
\<close>

fun mismatchesRun ::
  "('w \<Rightarrow> bool \<times> 'w) \<Rightarrow> ('w \<Rightarrow> ((thrown + 'a) \<times> 'w) option) \<Rightarrow> 'a \<Rightarrow> 'w \<Rightarrow> ('a \<times> 'w) list
   \<Rightarrow> bool" where
  "mismatchesRun retryTimeoutCondition foo expected w [] = True"
| "mismatchesRun retryTimeoutCondition foo expected w (a # run) =
     (fst (retryTimeoutCondition w)
      \<and> foo (snd (retryTimeoutCondition w)) = Some (Inr (fst a), snd a)
      \<and> fst a \<noteq> expected
      \<and> mismatchesRun retryTimeoutCondition foo expected (snd a) run)"

text \<open>The errors that the catch block of waitForNotPresent records.\<close>

definition otherError :: "jsError \<Rightarrow> bool" where
  "otherError e =
     (errClass e \<noteq> InvalidSelectorError \<and> errClass e \<noteq> NoSuchElementError
      \<and> errClass e \<noteq> StaleElementReferenceError)"

section \<open>Annotated errors\<close>









section \<open>Example worlds\<close>

text \<open>
  A world is the time in milliseconds. Reading the clock takes no time, each call of
  the driver takes ten seconds, and every call succeeds.
\<close>

definition exampleStack :: string where
  "exampleStack = ''at Element.click (driver.ts:208)'' @ newline @ ''at spec.ts:7''"

definition pageDriver :: "nat driver" where
  "pageDriver =
     \<lparr>date_now = (\<lambda>w. (int w, w)),
      error_stack = (\<lambda>w. Some exampleStack),
      wd_findElement = (\<lambda>n l w. (Inr (WebElement 1), w + 10000)),
      wd_findElements = (\<lambda>n l w. (Inr [WebElement 2, WebElement 3], w + 10000)),
      wd_isEnabled = (\<lambda>n w. (Inr True, w + 10000)),
      wd_isDisplayed = (\<lambda>n w. (Inr True, w + 10000)),
      wd_click = (\<lambda>n w. (Inr (), w + 10000)),
      wd_sendKeys = (\<lambda>n keys w. (Inr (), w + 10000)),
      wd_getText = (\<lambda>n w. (Inr ''text'', w + 10000)),
      wd_getAttribute = (\<lambda>n a w. (Inr ''value'', w + 10000)),
      wd_clear = (\<lambda>n w. (Inr (), w + 10000)),
      wd_getSize = (\<lambda>n w. (Inr (80, 20), w + 10000)),
      wd_getRect = (\<lambda>n w. (Inr (0, 0, 80, 20), w + 10000)),
      wd_getLocation = (\<lambda>n w. (Inr (0, 0), w + 10000)),
      wd_takeScreenshot = (\<lambda>n opt_scroll w. (Inr ''iVBORw0KGgo='', w + 10000)),
      wd_submit = (\<lambda>n w. (Inr (), w + 10000)),
      wd_isSelected = (\<lambda>n w. (Inr True, w + 10000))\<rparr>"

definition noSuchElement :: driverError where
  "noSuchElement =
     \<lparr>raisedClass = NoSuchElementError, raisedMessage = ''no such element'',
      raisedStack = Some ''at findElement (driver.ts:180)''\<rparr>"

definition invalidSelector :: driverError where
  "invalidSelector =
     \<lparr>raisedClass = InvalidSelectorError, raisedMessage = ''invalid selector'',
      raisedStack = Some ''at findElement (driver.ts:180)''\<rparr>"

text \<open>A page on which no locator finds anything, and one that rejects every selector.\<close>

definition emptyPage :: "nat driver" where
  "emptyPage = pageDriver\<lparr>wd_findElement := (\<lambda>n l w. (Inl noSuchElement, w + 10000))\<rparr>"

definition strictPage :: "nat driver" where
  "strictPage = pageDriver\<lparr>wd_findElement := (\<lambda>n l w. (Inl invalidSelector, w + 10000))\<rparr>"

text \<open>What getElement throws on these two pages for the chain of the one locator \<^verbatim>\<open>#a\<close>.\<close>

definition notFoundInChain :: jsError where
  "notFoundInChain =
     \<lparr>errClass = NoSuchElementError,
      message = ''no such element'' @ locatorsChain [By_css ''#a''],
      stack = Some ''at findElement (driver.ts:180)'', getElementError = True\<rparr>"

definition rejectedInChain :: jsError where
  "rejectedInChain =
     \<lparr>errClass = InvalidSelectorError,
      message = ''invalid selector'' @ locatorsChain [By_css ''#a''],
      stack = Some ''at findElement (driver.ts:180)'', getElementError = True\<rparr>"

text \<open>A page whose element reads \<^verbatim>\<open>loading\<close> for the first thirty seconds.\<close>

definition loadingPage :: "nat driver" where
  "loadingPage =
     pageDriver\<lparr>wd_getText :=
       (\<lambda>n w. (Inr (if w < 30000 then ''loading'' else ''ready''), w + 10000))\<rparr>"

definition describeTexts :: "string \<Rightarrow> string \<Rightarrow> string" where
  "describeTexts actual expected = actual @ '' !== '' @ expected"


text \<open>
  A page whose session fails during the first ten seconds and which has lost the element
  afterwards, and a page whose session fails for ever.
\<close>

definition unknownError :: driverError where
  "unknownError =
     \<lparr>raisedClass = WebDriverError, raisedMessage = ''unknown error'',
      raisedStack = Some ''at findElement (driver.ts:180)''\<rparr>"

definition flakyPage :: "nat driver" where
  "flakyPage =
     pageDriver\<lparr>wd_findElement :=
       (\<lambda>n l w. (Inl (if w < 10000 then unknownError else noSuchElement), w + 10000))\<rparr>"

definition brokenPage :: "nat driver" where
  "brokenPage = pageDriver\<lparr>wd_findElement := (\<lambda>n l w. (Inl unknownError, w + 10000))\<rparr>"

definition unknownInChain :: jsError where
  "unknownInChain =
     \<lparr>errClass = WebDriverError,
      message = ''unknown error'' @ locatorsChain [By_css ''#a''],
      stack = Some ''at findElement (driver.ts:180)'', getElementError = True\<rparr>"

text \<open>A store with one array, the chain of a handle made by \<^verbatim>\<open>$('#a')\<close>.\<close>

definition exampleHeap :: heap where
  "exampleHeap = \<lparr>locatorArrays = (\<lambda>r. if r = 0 then [By_css ''#a''] else []), nextRef = 1\<rparr>"

definition exampleParent :: element where
  "exampleParent = \<lparr>ownLocator = Some (By_css ''#a''), chainedLocators = 0\<rparr>"

text \<open>
  Two pages with the same two list items, texts \<^verbatim>\<open>b\<close> and \<^verbatim>\<open>a\<close>, which the driver
  discovers in the one order on the first page and in the other order on the second.
\<close>

definition listPage :: "nat driver" where
  "listPage =
     pageDriver\<lparr>wd_getText :=
       (\<lambda>n w. (Inr (if n = WebElement 2 then ''b'' else ''a''), w + 10000))\<rparr>"

definition reversedPage :: "nat driver" where
  "reversedPage =
     listPage\<lparr>wd_findElements := (\<lambda>n l w. (Inr [WebElement 3, WebElement 2], w + 10000))\<rparr>"

text \<open>A list with two items of the same text, and the text of each item of these pages.\<close>

definition repeatedPage :: "nat driver" where
  "repeatedPage =
     listPage\<lparr>wd_findElements :=
       (\<lambda>n l w. (Inr [WebElement 3, WebElement 2, WebElement 4], w + 10000))\<rparr>"

definition exampleTexts :: "node \<Rightarrow> string" where
  "exampleTexts el = (if el = WebElement 2 then ''b'' else ''a'')"

definition exampleList :: chainedElementAll where
  "exampleList = \<lparr>internalElement = [By_css ''ul''], cea_locator = By_css ''li''\<rparr>"

definition describeLists :: "string list \<Rightarrow> string list \<Rightarrow> string" where
  "describeLists actual expected = ''Expected values to be strictly deep-equal''"

text \<open>The caller's array, at reference 0 of the store of string arrays.\<close>

definition callerArrays :: stringArrays where
  "callerArrays = (\<lambda>r. if r = 0 then [''b'', ''a''] else [])"

text \<open>
  A page on which reading the clock takes twenty seconds, and a page whose element is
  never enabled.
\<close>

definition sleepyPage :: "nat driver" where
  "sleepyPage = pageDriver\<lparr>date_now := (\<lambda>w. (int w, w + 20000))\<rparr>"

definition disabledPage :: "nat driver" where
  "disabledPage = pageDriver\<lparr>wd_isEnabled := (\<lambda>n w. (Inr False, w + 10000))\<rparr>"

definition noOptions :: expectOptions where
  "noOptions = \<lparr>opt_message = None, opt_timeout = Some (- 1), opt_concatenateMessages = False\<rparr>"




text \<open>A page whose list has gone stale whenever its items are looked up.\<close>

definition staleElement :: driverError where
  "staleElement =
     \<lparr>raisedClass = StaleElementReferenceError, raisedMessage = ''stale element reference'',
      raisedStack = Some ''at findElements (driver.ts:470)''\<rparr>"

definition staleListPage :: "nat driver" where
  "staleListPage = pageDriver\<lparr>wd_findElements := (\<lambda>n l w. (Inl staleElement, w + 10000))\<rparr>"





section \<open>Properties of the retry loop\<close>

subsection \<open>One iteration\<close>

lemma retryLoop_timeout:
  "\<not> fst (c w) \<Longrightarrow> retryLoop (Suc n) c t h cur w = Some (Inl cur, snd (c w))"
  by simp

lemma retryLoop_rethrow:
  "fst (c w) \<Longrightarrow> t (snd (c w)) = (Inl e, w') \<Longrightarrow> h e = Rethrow e'
   \<Longrightarrow> retryLoop (Suc n) c t h cur w = Some (Inl (Error e'), w')"
  by simp

lemma retryLoop_return_from_catch:
  "fst (c w) \<Longrightarrow> t (snd (c w)) = (Inl e, w') \<Longrightarrow> h e = ReturnFromCatch v
   \<Longrightarrow> retryLoop (Suc n) c t h cur w = Some (Inr v, w')"
  by simp

lemma retryLoop_returned:
  "fst (c w) \<Longrightarrow> t (snd (c w)) = (Inr (Returned v), w')
   \<Longrightarrow> retryLoop (Suc n) c t h cur w = Some (Inr v, w')"
  by simp

lemma endOf_Cons: "endOf w (a # run) = endOf (snd a) run"
  by (simp add: endOf_def)

lemma endOf_Nil: "endOf w [] = w"
  by (simp add: endOf_def)

lemma retryLoop_run:
  assumes "attemptsRun c t w run"
    and "list_all (\<lambda>a. continues R (fst a)) run"
    and "\<And>e. R e \<Longrightarrow> h e = Recorded (f e)"
  shows "retryLoop (length run + n) c t h cur w
         = retryLoop n c t h (lastRecorded f cur run) (endOf w run)"
  using assms(1,2)
proof (induction run arbitrary: w cur)
  case Nil
  then show ?case by (simp add: endOf_Nil)
next
  case (Cons a run)
  obtain r w' where a: "a = (r, w')" by (cases a)
  from Cons.prems a have c: "fst (c w)" and t: "t (snd (c w)) = (r, w')"
    and rest: "attemptsRun c t w' run" "list_all (\<lambda>a. continues R (fst a)) run"
    and r: "continues R r"
    by simp_all
  show ?case
  proof (cases r)
    case (Inl e)
    with r have "R e" by simp
    then have "h e = Recorded (f e)" by (rule assms(3))
    with c t Inl a Cons.IH[OF rest] show ?thesis
      by (simp add: endOf_Cons)
  next
    case (Inr s)
    with r have "s = FellThrough" by (cases s) simp_all
    with c t Inr a Cons.IH[OF rest] show ?thesis
      by (simp add: endOf_Cons)
  qed
qed

lemma lastRecorded_fails:
  "list_all (\<lambda>a. fails R (fst a)) run \<Longrightarrow> run \<noteq> []
   \<Longrightarrow> \<exists>e. fst (last run) = Inl e \<and> lastRecorded f cur run = Error (f e)"
proof (induction run arbitrary: cur)
  case Nil
  then show ?case by simp
next
  case (Cons a run)
  obtain r w' where a: "a = (r, w')" by (cases a)
  with Cons.prems obtain e where e: "r = Inl e" by (cases r) simp_all
  show ?case
  proof (cases "run = []")
    case True
    with a e show ?thesis by simp
  next
    case False
    with Cons.IH[of "Error (f e)"] Cons.prems a e show ?thesis by simp
  qed
qed

lemma fails_continues: "fails R r \<Longrightarrow> continues R r"
  by (cases r) simp_all

lemma list_all_fails_continues:
  "list_all (\<lambda>a. fails R (fst a)) run \<Longrightarrow> list_all (\<lambda>a. continues R (fst a)) run"
  by (induction run) (simp_all add: fails_continues)

lemma retryLoop_fails_until_timeout:
  assumes "attemptsRun c t w run"
    and "list_all (\<lambda>a. fails R (fst a)) run"
    and "run \<noteq> []"
    and "\<not> fst (c (endOf w run))"
    and "length run < fuel"
    and "\<And>e. R e \<Longrightarrow> h e = Recorded (f e)"
  shows "\<exists>e. fst (last run) = Inl e
           \<and> retryLoop fuel c t h cur w = Some (Inl (Error (f e)), snd (c (endOf w run)))"
proof -
  from assms(5) obtain n where fuel: "fuel = length run + Suc n"
    by (metis add_Suc_right less_iff_Suc_add)
  from lastRecorded_fails[OF assms(2,3)] obtain e where
    e: "fst (last run) = Inl e" "lastRecorded f cur run = Error (f e)" by blast
  have "retryLoop fuel c t h cur w
        = retryLoop (Suc n) c t h (lastRecorded f cur run) (endOf w run)"
    unfolding fuel
    by (rule retryLoop_run[OF assms(1) list_all_fails_continues[OF assms(2)] assms(6)])
  also have "\<dots> = Some (Inl (Error (f e)), snd (c (endOf w run)))"
    using assms(4) e by simp
  finally show ?thesis using e by blast
qed

lemma getCleanStack_example: "getCleanStack (Some exampleStack) = Some ''at spec.ts:7''"
  by (simp add: getCleanStack_def exampleStack_def newline_def)

lemma catchPlain_retryable: "retryable e \<Longrightarrow> catchPlain st e = Recorded (e\<lparr>stack := st\<rparr>)"
  by (simp add: catchPlain_def retryable_def)

lemma catchAnnotate_retryable:
  "retryable e \<Longrightarrow> catchAnnotate chain st e = Recorded ((annotate chain e)\<lparr>stack := st\<rparr>)"
  by (simp add: catchAnnotate_def retryable_def)

lemma loop_fails_until_timeout:
  assumes "failsUntilTimeout d timeout t w run" and "length run < fuel"
    and "\<And>e. retryable e \<Longrightarrow> h e = Recorded (f e)"
  shows "\<exists>e. fst (last run) = Inl e
     \<and> retryLoop fuel (budget d timeout w) t h cur (entered d timeout w)
       = Some (Inl (Error (f e)), afterTimeout d timeout w run)"
  unfolding afterTimeout_def
  using assms(1) unfolding failsUntilTimeout_def
  by (intro retryLoop_fails_until_timeout[where R = retryable] assms(2,3)) simp_all

lemma loop_throws_after:
  assumes "throwsAfter d timeout t R w run e w'" and "length run < fuel"
    and "\<And>x. R x \<Longrightarrow> h x = Recorded (f x)" and "h e = Rethrow e'"
  shows "retryLoop fuel (budget d timeout w) t h cur (entered d timeout w)
         = Some (Inl (Error e'), w')"
proof -
  from assms(2) obtain n where fuel: "fuel = length run + Suc n"
    by (metis add_Suc_right less_iff_Suc_add)
  from assms(1) have run: "attemptsRun (budget d timeout w) t (entered d timeout w) run"
    "list_all (\<lambda>a. continues R (fst a)) run"
    and last: "fst (budget d timeout w (endOf (entered d timeout w) run))"
    "t (snd (budget d timeout w (endOf (entered d timeout w) run))) = (Inl e, w')"
    by (simp_all add: throwsAfter_def)
  have "retryLoop fuel (budget d timeout w) t h cur (entered d timeout w)
        = retryLoop (Suc n) (budget d timeout w) t h (lastRecorded f cur run)
            (endOf (entered d timeout w) run)"
    unfolding fuel by (rule retryLoop_run[OF run assms(3)])
  also have "\<dots> = Some (Inl (Error e'), w')"
    using last assms(4) by simp
  finally show ?thesis .
qed

lemma catchPlain_invalid: "errClass e = InvalidSelectorError \<Longrightarrow> catchPlain st e = Rethrow e"
  by (simp add: catchPlain_def)

lemma catchAnnotate_invalid:
  "errClass e = InvalidSelectorError \<Longrightarrow> catchAnnotate chain st e = Rethrow e"
  by (simp add: catchAnnotate_def)

subsection \<open>Where a result of the loop comes from\<close>

lemma loop_return_after:
  assumes "throwsAfter d timeout t R w run e w'" and "length run < fuel"
    and "\<And>x. R x \<Longrightarrow> h x = Recorded (f x)" and "h e = ReturnFromCatch v"
  shows "retryLoop fuel (budget d timeout w) t h cur (entered d timeout w) = Some (Inr v, w')"
proof -
  from assms(2) obtain n where fuel: "fuel = length run + Suc n"
    by (metis add_Suc_right less_iff_Suc_add)
  from assms(1) have run: "attemptsRun (budget d timeout w) t (entered d timeout w) run"
    "list_all (\<lambda>a. continues R (fst a)) run"
    and last: "fst (budget d timeout w (endOf (entered d timeout w) run))"
    "t (snd (budget d timeout w (endOf (entered d timeout w) run))) = (Inl e, w')"
    by (simp_all add: throwsAfter_def)
  have "retryLoop fuel (budget d timeout w) t h cur (entered d timeout w)
        = retryLoop (Suc n) (budget d timeout w) t h (lastRecorded f cur run)
            (endOf (entered d timeout w) run)"
    unfolding fuel by (rule retryLoop_run[OF run assms(3)])
  also have "\<dots> = Some (Inr v, w')"
    using last assms(4) by simp
  finally show ?thesis .
qed

lemma loop_timeout_after:
  assumes "attemptsRun (budget d timeout w) t (entered d timeout w) run"
    and "list_all (\<lambda>a. continues R (fst a)) run"
    and "\<not> fst (budget d timeout w (endOf (entered d timeout w) run))"
    and "length run < fuel"
    and "\<And>x. R x \<Longrightarrow> h x = Recorded (f x)"
  shows "retryLoop fuel (budget d timeout w) t h cur (entered d timeout w)
         = Some (Inl (lastRecorded f cur run), afterTimeout d timeout w run)"
proof -
  from assms(4) obtain n where fuel: "fuel = length run + Suc n"
    by (metis add_Suc_right less_iff_Suc_add)
  have "retryLoop fuel (budget d timeout w) t h cur (entered d timeout w)
        = retryLoop (Suc n) (budget d timeout w) t h (lastRecorded f cur run)
            (endOf (entered d timeout w) run)"
    unfolding fuel by (rule retryLoop_run[OF assms(1,2,5)])
  also have "\<dots> = Some (Inl (lastRecorded f cur run), afterTimeout d timeout w run)"
    using assms(3) by (simp add: afterTimeout_def)
  finally show ?thesis .
qed

lemma retryLoop_returns:
  "retryLoop fuel c t h cur w = Some (Inr v, w')
   \<Longrightarrow> (\<exists>w0. t w0 = (Inr (Returned v), w')) \<or> (\<exists>e. h e = ReturnFromCatch v)"
proof (induction fuel arbitrary: cur w)
  case 0
  then show ?case by simp
next
  case (Suc fuel)
  show ?case
  proof (cases "fst (c w)")
    case False
    with Suc.prems show ?thesis by simp
  next
    case True
    obtain r w1 where t: "t (snd (c w)) = (r, w1)" by (cases "t (snd (c w))")
    show ?thesis
    proof (cases r)
      case (Inl e)
      with True t Suc.prems Suc.IH show ?thesis
        by (cases "h e") auto
    next
      case (Inr s)
      with True t Suc.prems Suc.IH show ?thesis
        by (cases s) auto
    qed
  qed
qed


lemma lastRecorded_fell_through:
  "list_all (\<lambda>a. fst a = Inr FellThrough) run \<Longrightarrow> lastRecorded f cur run = cur"
  by (induction run arbitrary: cur) auto

lemma fell_through_continues:
  "list_all (\<lambda>a. fst a = Inr FellThrough) run \<Longrightarrow> list_all (\<lambda>a. continues R (fst a)) run"
  by (induction run) auto

subsection \<open>Evaluating the example worlds\<close>

lemmas run_defs = timeoutCondition_def QuarterAMinute_def endOf_def retryable_def

lemmas try_defs = getElement_def getSlicedLocators_def raised_def annotate_def
  retryGetElement_try_def click_try_def clickSendKeys_try_def clickTillAttributeEqual_try_def
  clickTillElementPresent_try_def waitForVisible_try_def retryIsDisplayed_try_def
  retryGetText_try_def retryFindElements_try_def

section \<open>Retry until success\<close>

text \<open>
  Claim C1. For each of the nine retrying methods of Element: when every attempt made
  within the budget throws a retryable error (any error but an InvalidSelectorError)
  and the budget predicate then reports the timeout, the method throws the error of
  the last attempt as its catch block recorded it (the stack replaced by the preserved
  one and, in the methods that annotate, the chain appended to an unmarked message),
  and the world it leaves is the one after that first failing check of the budget: it
  has not thrown before.
\<close>

theorem C1_throws_last_failure_after_timeout:
  "(failsUntilTimeout d timeout (retryGetElement_try d chain) w runG \<and> length runG < fuel
      \<longrightarrow> (\<exists>e. fst (last runG) = Inl e
            \<and> retryGetElement fuel d chain timeout w
              = Some (Inl (Error (e\<lparr>stack := preserved d w\<rparr>)),
                      afterTimeout d timeout w runG)))
   \<and> (failsUntilTimeout d timeout (click_try d chain) w runC
        \<and> length runC < fuel
      \<longrightarrow> (\<exists>e. fst (last runC) = Inl e
            \<and> click fuel d chain timeout w
              = Some (Inl (Error ((annotate chain e)\<lparr>stack := preserved d w\<rparr>)),
                      afterTimeout d timeout w runC)))
   \<and> (failsUntilTimeout d None (clickSendKeys_try d chain var_args) w runS
        \<and> length runS < fuel
      \<longrightarrow> (\<exists>e. fst (last runS) = Inl e
            \<and> clickSendKeys fuel d chain var_args w
              = Some (Inl (Error ((annotate chain e)\<lparr>stack := preserved d w\<rparr>)),
                      afterTimeout d None w runS)))
   \<and> (failsUntilTimeout d None (clickTillAttributeEqual_try d chain name val) w runA
        \<and> length runA < fuel
      \<longrightarrow> (\<exists>e. fst (last runA) = Inl e
            \<and> clickTillAttributeEqual fuel d chain name val w
              = Some (Inl (Error ((annotate chain e)\<lparr>stack := preserved d w\<rparr>)),
                      afterTimeout d None w runA)))
   \<and> (failsUntilTimeout d None (clickTillElementPresent_try d chain other) w runP
        \<and> length runP < fuel
      \<longrightarrow> (\<exists>e. fst (last runP) = Inl e
            \<and> clickTillElementPresent fuel d chain other w
              = Some (Inl (Error ((annotate chain e)\<lparr>stack := preserved d w\<rparr>)),
                      afterTimeout d None w runP)))
   \<and> (failsUntilTimeout d None (waitForVisible_try d chain) w runV
        \<and> length runV < fuel
      \<longrightarrow> (\<exists>e. fst (last runV) = Inl e
            \<and> waitForVisible fuel d chain w
              = Some (Inl (Error ((annotate chain e)\<lparr>stack := preserved d w\<rparr>)),
                      afterTimeout d None w runV)))
   \<and> (failsUntilTimeout d None (retryIsDisplayed_try d chain) w runD
        \<and> length runD < fuel
      \<longrightarrow> (\<exists>e. fst (last runD) = Inl e
            \<and> retryIsDisplayed fuel d chain w
              = Some (Inl (Error ((annotate chain e)\<lparr>stack := preserved d w\<rparr>)),
                      afterTimeout d None w runD)))
   \<and> (failsUntilTimeout d None (retryGetText_try d chain) w runT
        \<and> length runT < fuel
      \<longrightarrow> (\<exists>e. fst (last runT) = Inl e
            \<and> retryGetText fuel d chain w
              = Some (Inl (Error ((annotate chain e)\<lparr>stack := preserved d w\<rparr>)),
                      afterTimeout d None w runT)))
   \<and> (failsUntilTimeout d None (retryFindElements_try d chain locator) w runF
        \<and> length runF < fuel
      \<longrightarrow> (\<exists>e. fst (last runF) = Inl e
            \<and> retryFindElements fuel d chain locator w
              = Some (Inl (Error (e\<lparr>stack := preserved d w\<rparr>)),
                      afterTimeout d None w runF)))"
  unfolding retryGetElement_def click_def clickSendKeys_def clickTillAttributeEqual_def
    clickTillElementPresent_def waitForVisible_def retryIsDisplayed_def retryGetText_def
    retryFindElements_def Let_def
  by (intro conjI impI; elim conjE;
      rule loop_fails_until_timeout; (assumption | rule catchPlain_retryable catchAnnotate_retryable))

theorem C1_throws_last_failure_after_timeout_witness:
  "retryGetElement 3 emptyPage [By_css ''#a''] None 0
       = Some (Inl (Error (notFoundInChain\<lparr>stack := Some ''at spec.ts:7''\<rparr>)), 20000)
   \<and> click 3 emptyPage [By_css ''#a''] None 0
       = Some (Inl (Error (notFoundInChain\<lparr>stack := Some ''at spec.ts:7''\<rparr>)), 20000)
   \<and> clickSendKeys 3 emptyPage [By_css ''#a''] [''x''] 0
       = Some (Inl (Error (notFoundInChain\<lparr>stack := Some ''at spec.ts:7''\<rparr>)), 20000)
   \<and> clickTillAttributeEqual 3 emptyPage [By_css ''#a''] ''value'' ''done'' 0
       = Some (Inl (Error (notFoundInChain\<lparr>stack := Some ''at spec.ts:7''\<rparr>)), 20000)
   \<and> clickTillElementPresent 3 emptyPage [By_css ''#a''] [By_css ''#b''] 0
       = Some (Inl (Error (notFoundInChain\<lparr>stack := Some ''at spec.ts:7''\<rparr>)), 20000)
   \<and> waitForVisible 3 emptyPage [By_css ''#a''] 0
       = Some (Inl (Error (notFoundInChain\<lparr>stack := Some ''at spec.ts:7''\<rparr>)), 20000)
   \<and> retryIsDisplayed 3 emptyPage [By_css ''#a''] 0
       = Some (Inl (Error (notFoundInChain\<lparr>stack := Some ''at spec.ts:7''\<rparr>)), 20000)
   \<and> retryGetText 3 emptyPage [By_css ''#a''] 0
       = Some (Inl (Error (notFoundInChain\<lparr>stack := Some ''at spec.ts:7''\<rparr>)), 20000)
   \<and> retryFindElements 3 emptyPage [By_css ''#a''] (By_css ''li'') 0
       = Some (Inl (Error (notFoundInChain\<lparr>stack := Some ''at spec.ts:7''\<rparr>)), 20000)"
  using C1_throws_last_failure_after_timeout[where d = emptyPage and w = 0
      and chain = "[By_css ''#a'']" and fuel = 3 and timeout = None
      and var_args = "[''x'']" and name = "''value''" and val = "''done''"
      and other = "[By_css ''#b'']" and locator = "By_css ''li''"
      and runG = "[(Inl notFoundInChain, 10000), (Inl notFoundInChain, 20000)]"
      and runC = "[(Inl notFoundInChain, 10000), (Inl notFoundInChain, 20000)]"
      and runS = "[(Inl notFoundInChain, 10000), (Inl notFoundInChain, 20000)]"
      and runA = "[(Inl notFoundInChain, 10000), (Inl notFoundInChain, 20000)]"
      and runP = "[(Inl notFoundInChain, 10000), (Inl notFoundInChain, 20000)]"
      and runV = "[(Inl notFoundInChain, 10000), (Inl notFoundInChain, 20000)]"
      and runD = "[(Inl notFoundInChain, 10000), (Inl notFoundInChain, 20000)]"
      and runT = "[(Inl notFoundInChain, 10000), (Inl notFoundInChain, 20000)]"
      and runF = "[(Inl notFoundInChain, 10000), (Inl notFoundInChain, 20000)]"]
  by (simp add: failsUntilTimeout_def afterTimeout_def run_defs try_defs pageDriver_def
      emptyPage_def noSuchElement_def notFoundInChain_def getCleanStack_example)

text \<open>
  Claim C2. For each of the nine retrying methods of Element: when an attempt made
  within the budget throws an InvalidSelectorError, whatever number of attempts went
  before it, the method throws that very error, unchanged, and leaves the world of
  that attempt: no further check of the budget and no further attempt is made. With
  an empty run this is the first attempt.
\<close>

theorem C2_invalid_selector_propagates_at_once:
  "(throwsAfter d timeout (retryGetElement_try d chain) retryable w runG e w'
        \<and> errClass e = InvalidSelectorError \<and> length runG < fuel
      \<longrightarrow> retryGetElement fuel d chain timeout w = Some (Inl (Error e), w'))
   \<and> (throwsAfter d timeout (click_try d chain) retryable w runC e w'
        \<and> errClass e = InvalidSelectorError \<and> length runC < fuel
      \<longrightarrow> click fuel d chain timeout w = Some (Inl (Error e), w'))
   \<and> (throwsAfter d None (clickSendKeys_try d chain var_args) retryable w runS e w'
        \<and> errClass e = InvalidSelectorError \<and> length runS < fuel
      \<longrightarrow> clickSendKeys fuel d chain var_args w = Some (Inl (Error e), w'))
   \<and> (throwsAfter d None (clickTillAttributeEqual_try d chain name val) retryable w runA e w'
        \<and> errClass e = InvalidSelectorError \<and> length runA < fuel
      \<longrightarrow> clickTillAttributeEqual fuel d chain name val w = Some (Inl (Error e), w'))
   \<and> (throwsAfter d None (clickTillElementPresent_try d chain other) retryable w runP e w'
        \<and> errClass e = InvalidSelectorError \<and> length runP < fuel
      \<longrightarrow> clickTillElementPresent fuel d chain other w = Some (Inl (Error e), w'))
   \<and> (throwsAfter d None (waitForVisible_try d chain) retryable w runV e w'
        \<and> errClass e = InvalidSelectorError \<and> length runV < fuel
      \<longrightarrow> waitForVisible fuel d chain w = Some (Inl (Error e), w'))
   \<and> (throwsAfter d None (retryIsDisplayed_try d chain) retryable w runD e w'
        \<and> errClass e = InvalidSelectorError \<and> length runD < fuel
      \<longrightarrow> retryIsDisplayed fuel d chain w = Some (Inl (Error e), w'))
   \<and> (throwsAfter d None (retryGetText_try d chain) retryable w runT e w'
        \<and> errClass e = InvalidSelectorError \<and> length runT < fuel
      \<longrightarrow> retryGetText fuel d chain w = Some (Inl (Error e), w'))
   \<and> (throwsAfter d None (retryFindElements_try d chain locator) retryable w runF e w'
        \<and> errClass e = InvalidSelectorError \<and> length runF < fuel
      \<longrightarrow> retryFindElements fuel d chain locator w = Some (Inl (Error e), w'))"
  unfolding retryGetElement_def click_def clickSendKeys_def clickTillAttributeEqual_def
    clickTillElementPresent_def waitForVisible_def retryIsDisplayed_def retryGetText_def
    retryFindElements_def Let_def
  by (intro conjI impI; elim conjE;
      rule loop_throws_after[where R = retryable], assumption, assumption,
      (rule catchPlain_retryable catchAnnotate_retryable, assumption),
      (rule catchPlain_invalid catchAnnotate_invalid, assumption))

theorem C2_invalid_selector_propagates_at_once_witness:
  "retryGetElement 1 strictPage [By_css ''#a''] None 0 = Some (Inl (Error rejectedInChain), 10000)
   \<and> click 1 strictPage [By_css ''#a''] None 0 = Some (Inl (Error rejectedInChain), 10000)
   \<and> clickSendKeys 1 strictPage [By_css ''#a''] [''x''] 0 = Some (Inl (Error rejectedInChain), 10000)
   \<and> clickTillAttributeEqual 1 strictPage [By_css ''#a''] ''value'' ''done'' 0 = Some (Inl (Error rejectedInChain), 10000)
   \<and> clickTillElementPresent 1 strictPage [By_css ''#a''] [By_css ''#b''] 0 = Some (Inl (Error rejectedInChain), 10000)
   \<and> waitForVisible 1 strictPage [By_css ''#a''] 0 = Some (Inl (Error rejectedInChain), 10000)
   \<and> retryIsDisplayed 1 strictPage [By_css ''#a''] 0 = Some (Inl (Error rejectedInChain), 10000)
   \<and> retryGetText 1 strictPage [By_css ''#a''] 0 = Some (Inl (Error rejectedInChain), 10000)
   \<and> retryFindElements 1 strictPage [By_css ''#a''] (By_css ''li'') 0 = Some (Inl (Error rejectedInChain), 10000)"
  using C2_invalid_selector_propagates_at_once[where d = strictPage and w = 0 and chain = "[By_css ''#a'']" and fuel = 1
      and timeout = None and e = rejectedInChain and w' = 10000 and var_args = "[''x'']" and name = "''value''" and val = "''done''" and other = "[By_css ''#b'']" and locator = "By_css ''li''"
      and runG = "[]"
      and runC = "[]"
      and runS = "[]"
      and runA = "[]"
      and runP = "[]"
      and runV = "[]"
      and runD = "[]"
      and runT = "[]"
      and runF = "[]"]
  by (simp add: throwsAfter_def run_defs try_defs pageDriver_def strictPage_def invalidSelector_def
      rejectedInChain_def)

section \<open>Retry until equal\<close>

lemma retryExpect_loop_mismatches:
  assumes "mismatchesRun c foo expected w run"
  shows "\<exists>x. retryExpect_loop (length run + n) c foo describe expected opts exception w
         = retryExpect_loop n c foo describe expected opts x (endOf w run)"
  using assms
proof (induction run arbitrary: w exception)
  case Nil
  show ?case by (auto simp: endOf_Nil)
next
  case (Cons a run)
  from Cons.prems have c: "fst (c w)" and foo: "foo (snd (c w)) = Some (Inr (fst a), snd a)"
    and ne: "fst a \<noteq> expected" and rest: "mismatchesRun c foo expected (snd a) run"
    by simp_all
  from Cons.IH[OF rest] obtain x where
    "retryExpect_loop (length run + n) c foo describe expected opts
       (Error \<lparr>errClass = AssertionError, message = describe (fst a) expected,
                stack = None, getElementError = False\<rparr>) (snd a)
     = retryExpect_loop n c foo describe expected opts x (endOf (snd a) run)"
    by blast
  with c foo ne show ?case
    by (auto simp: endOf_Cons deepStrictEqual_def)
qed

lemma retryExpect_loop_match:
  "fst (c w) \<Longrightarrow> foo (snd (c w)) = Some (Inr expected, w')
   \<Longrightarrow> retryExpect_loop (Suc n) c foo describe expected opts exception w = Some (Inr (), w')"
  by (simp add: deepStrictEqual_def)

text \<open>
  Claim C3. retryExpect returns, without throwing, at the first attempt made within the
  budget at which \<open>foo\<close> returns the expected value: whatever mismatching values the
  earlier attempts returned and however many they were, the result is the same, and the
  world retryExpect leaves is the one \<open>foo\<close> left at that attempt, so \<open>foo\<close> is not
  called again.
\<close>

theorem C3_retryExpect_returns_on_first_match:
  "mismatchesRun (budget d (opt_timeout opts) w) foo expected (entered d (opt_timeout opts) w) run
   \<and> fst (budget d (opt_timeout opts) w (endOf (entered d (opt_timeout opts) w) run))
   \<and> foo (snd (budget d (opt_timeout opts) w (endOf (entered d (opt_timeout opts) w) run)))
       = Some (Inr expected, w')
   \<and> length run < fuel
   \<longrightarrow> retryExpect fuel d describe foo expected opts w = Some (Inr (), w')"
proof (intro impI, elim conjE)
  assume run: "mismatchesRun (budget d (opt_timeout opts) w) foo expected
                 (entered d (opt_timeout opts) w) run"
    and c: "fst (budget d (opt_timeout opts) w (endOf (entered d (opt_timeout opts) w) run))"
    and foo: "foo (snd (budget d (opt_timeout opts) w
                 (endOf (entered d (opt_timeout opts) w) run))) = Some (Inr expected, w')"
    and "length run < fuel"
  then obtain n where fuel: "fuel = length run + Suc n"
    by (metis add_Suc_right less_iff_Suc_add)
  from retryExpect_loop_mismatches[OF run, of "Suc n" describe opts Undefined]
  obtain x where
    "retryExpect_loop fuel (budget d (opt_timeout opts) w) foo describe expected opts Undefined
       (entered d (opt_timeout opts) w)
     = retryExpect_loop (Suc n) (budget d (opt_timeout opts) w) foo describe expected opts x
         (endOf (entered d (opt_timeout opts) w) run)"
    unfolding fuel by blast
  also have "\<dots> = Some (Inr (), w')"
    using c foo by (simp add: deepStrictEqual_def)
  finally show "retryExpect fuel d describe foo expected opts w = Some (Inr (), w')"
    by (simp add: retryExpect_def)
qed

theorem C3_retryExpect_returns_on_first_match_witness:
  "retryExpect 3 loadingPage describeTexts (retryGetText (Suc 0) loadingPage [By_css ''#a''])
     ''ready'' \<lparr>opt_message = None, opt_timeout = Some 100000, opt_concatenateMessages = False\<rparr> 0
   = Some (Inr (), 40000)"
  using C3_retryExpect_returns_on_first_match[where d = loadingPage and w = 0 and fuel = 3 and describe = describeTexts
      and foo = "retryGetText (Suc 0) loadingPage [By_css ''#a'']" and expected = "''ready''"
      and opts = "\<lparr>opt_message = None, opt_timeout = Some 100000,
                     opt_concatenateMessages = False\<rparr>"
      and run = "[(''loading'', 20000)]" and w' = 40000]
  by (simp add: run_defs try_defs retryGetText_def pageDriver_def loadingPage_def)

section \<open>waitForNotPresent\<close>

lemma waitForNotPresent_catch_other:
  "otherError e \<Longrightarrow> waitForNotPresent_catch st e = Recorded (e\<lparr>stack := st\<rparr>)"
  by (simp add: waitForNotPresent_catch_def otherError_def)

text \<open>
  Claim C4 says that waitForNotPresent returns as soon as the resolution fails with not
  found or stale, and that a resolution failure of any other class is propagated rather
  than retried. The second half fails: on a page whose first resolution throws a
  WebDriverError and whose second throws a NoSuchElementError, the method does not
  throw the WebDriverError; it makes the second attempt and returns.
\<close>

theorem C4_other_error_is_retried_counterexample:
  "waitForNotPresent_try flakyPage [By_css ''#a''] 0 = (Inl unknownInChain, 10000)
   \<and> errClass unknownInChain = WebDriverError
   \<and> waitForNotPresent (Suc (Suc 0)) flakyPage [By_css ''#a''] 0 = Some (Inr (), 20000)"
  by (simp add: waitForNotPresent_def waitForNotPresent_try_def waitForNotPresent_catch_def
      timeoutCondition_def QuarterAMinute_def getElement_def getSlicedLocators_def raised_def
      flakyPage_def pageDriver_def unknownError_def noSuchElement_def unknownInChain_def)

text \<open>
  Claim C4 as amended. After any number of attempts that resolved the chain or threw an
  error of another class: an attempt that throws NoSuchElementError or
  StaleElementReferenceError makes waitForNotPresent return at once; an attempt that
  throws InvalidSelectorError makes it throw that error at once; an error of any other
  class is recorded with the preserved stack and the loop goes on, and when the budget
  ends the last error recorded (or \<^verbatim>\<open>undefined\<close>, when none was) is thrown.
\<close>

theorem C4_waitForNotPresent_outcomes:
  "(throwsAfter d None (waitForNotPresent_try d chain) otherError w run e w'
      \<and> (errClass e = NoSuchElementError \<or> errClass e = StaleElementReferenceError)
      \<and> length run < fuel
    \<longrightarrow> waitForNotPresent fuel d chain w = Some (Inr (), w'))
   \<and> (throwsAfter d None (waitForNotPresent_try d chain) otherError w run' e' w''
      \<and> errClass e' = InvalidSelectorError \<and> length run' < fuel
    \<longrightarrow> waitForNotPresent fuel d chain w = Some (Inl (Error e'), w''))
   \<and> (attemptsRun (budget d None w) (waitForNotPresent_try d chain) (entered d None w) run''
      \<and> list_all (\<lambda>a. continues otherError (fst a)) run''
      \<and> \<not> fst (budget d None w (endOf (entered d None w) run''))
      \<and> length run'' < fuel
    \<longrightarrow> waitForNotPresent fuel d chain w
        = Some (Inl (lastRecorded (\<lambda>x. x\<lparr>stack := preserved d w\<rparr>) Undefined run''),
                afterTimeout d None w run''))"
proof (intro conjI impI; elim conjE)
  assume "throwsAfter d None (waitForNotPresent_try d chain) otherError w run e w'"
    and "errClass e = NoSuchElementError \<or> errClass e = StaleElementReferenceError"
    and "length run < fuel"
  then show "waitForNotPresent fuel d chain w = Some (Inr (), w')"
    unfolding waitForNotPresent_def Let_def
    by (intro loop_return_after[where R = otherError] waitForNotPresent_catch_other)
       (auto simp: waitForNotPresent_catch_def otherError_def)
next
  assume "throwsAfter d None (waitForNotPresent_try d chain) otherError w run' e' w''"
    and "errClass e' = InvalidSelectorError" and "length run' < fuel"
  then show "waitForNotPresent fuel d chain w = Some (Inl (Error e'), w'')"
    unfolding waitForNotPresent_def Let_def
    by (intro loop_throws_after[where R = otherError] waitForNotPresent_catch_other)
       (auto simp: waitForNotPresent_catch_def otherError_def)
next
  assume "attemptsRun (budget d None w) (waitForNotPresent_try d chain) (entered d None w) run''"
    and "list_all (\<lambda>a. continues otherError (fst a)) run''"
    and "\<not> fst (budget d None w (endOf (entered d None w) run''))"
    and "length run'' < fuel"
  then show "waitForNotPresent fuel d chain w
        = Some (Inl (lastRecorded (\<lambda>x. x\<lparr>stack := preserved d w\<rparr>) Undefined run''),
                afterTimeout d None w run'')"
    unfolding waitForNotPresent_def Let_def
    by (intro loop_timeout_after[where R = otherError] waitForNotPresent_catch_other)
qed

theorem C4_waitForNotPresent_outcomes_witness:
  "waitForNotPresent 2 flakyPage [By_css ''#a''] 0 = Some (Inr (), 20000)
   \<and> waitForNotPresent 1 strictPage [By_css ''#a''] 0 = Some (Inl (Error rejectedInChain), 10000)
   \<and> waitForNotPresent 3 brokenPage [By_css ''#a''] 0
      = Some (Inl (Error (unknownInChain\<lparr>stack := Some ''at spec.ts:7''\<rparr>)), 20000)"
  using
    C4_waitForNotPresent_outcomes[where d = flakyPage and w = 0 and chain = "[By_css ''#a'']" and fuel = 2
      and run = "[(Inl unknownInChain, 10000)]" and e = notFoundInChain and w' = 20000,
      THEN conjunct1]
    C4_waitForNotPresent_outcomes[where d = strictPage and w = 0 and chain = "[By_css ''#a'']" and fuel = 1
      and run' = "[]" and e' = rejectedInChain and w'' = 10000,
      THEN conjunct2, THEN conjunct1]
    C4_waitForNotPresent_outcomes[where d = brokenPage and w = 0 and chain = "[By_css ''#a'']" and fuel = 3
      and run'' = "[(Inl unknownInChain, 10000), (Inl unknownInChain, 20000)]",
      THEN conjunct2, THEN conjunct2]
  by (simp add: throwsAfter_def afterTimeout_def run_defs try_defs otherError_def
      waitForNotPresent_try_def pageDriver_def
      flakyPage_def strictPage_def brokenPage_def unknownError_def noSuchElement_def
      invalidSelector_def unknownInChain_def notFoundInChain_def rejectedInChain_def
      getCleanStack_example)

section \<open>The chain in the message of an error\<close>





























subsection \<open>The retrying methods\<close>











subsection \<open>The methods that do not retry the action\<close>



subsection \<open>The expect methods\<close>



subsection \<open>From an attempt to the caller, in a loop that annotates\<close>







subsection \<open>What reaches the caller\<close>


text \<open>
  Two more evaluations. A retryable error of the action step of retryFindElements is
  thrown at the timeout with the driver's message and nothing appended. Element.findElements
  appends its line to an error that getElement had already annotated and marked.
\<close>

lemma retryFindElements_retryable_action_error:
  "retryFindElements (Suc (Suc 0)) staleListPage [By_css ''ul''] (By_css ''li'') 0
     = Some (Inl (Error ((raised staleElement)\<lparr>stack := Some ''at spec.ts:7''\<rparr>)), 20000)
   \<and> message ((raised staleElement)\<lparr>stack := Some ''at spec.ts:7''\<rparr>)
     = ''stale element reference''"
  by (simp add: retryFindElements_def retryFindElements_try_def catchPlain_def getElement_def
      timeoutCondition_def QuarterAMinute_def raised_def staleListPage_def pageDriver_def
      staleElement_def getCleanStack_example)

lemma Element_findElements_appends_twice:
  "fst (Element_findElements emptyPage [By_css ''#a''] (By_css ''li'') 0)
     = Inl (notFoundInChain\<lparr>message := ''no such element'' @ locatorsChain [By_css ''#a'']
              @ locatorsChain [By_css ''#a''] @ '' All: '' @ locator_toString (By_css ''li'')\<rparr>)"
  by (simp add: Element_findElements_def findElements_catch_def getElement_def
      getSlicedLocators_def raised_def emptyPage_def pageDriver_def noSuchElement_def
      notFoundInChain_def)



section \<open>Factories and derived handles\<close>

lemmas heap_defs = Element_dollar_def Element_xpath_def Element_element_def Element_new_def
  newArray_def push_def chainOf_def dollar_def xpath_def element_def Let_def

text \<open>
  Claim C6 says that \<^verbatim>\<open>xx(s)\<close> makes a collection handle whose locator uses the
  XPath strategy with selector \<open>s\<close>. The code calls \<^verbatim>\<open>By.css\<close>: for every \<open>s\<close> the
  locator of \<open>xx s\<close> is the CSS locator of \<open>s\<close>, it is not the XPath locator of \<open>s\<close>,
  and the handle is the one \<^verbatim>\<open>$$(s)\<close> makes, so findElements queries the document
  by CSS.
\<close>

theorem C6_xx_builds_css_locator:
  "ea_ownLocator (xx s) = By CssSelector s \<and> ea_ownLocator (xx s) \<noteq> By_xpath s
   \<and> xx s = dollar_dollar s
   \<and> ElementAll_findElements d (xx s) w = ElementAll_findElements d (dollar_dollar s) w"
  by (simp add: xx_def dollar_dollar_def By_css_def By_xpath_def)

text \<open>
  Claim C7. Deriving a handle allocates new arrays only: every array of the store that
  existed before is unchanged, for \<^verbatim>\<open>$\<close>, \<^verbatim>\<open>xpath\<close> and \<^verbatim>\<open>element\<close>. For a
  parent \<open>p\<close> that lives in the store, after \<^verbatim>\<open>p.$(a)\<close> and \<^verbatim>\<open>p.$(a).$(b)\<close> the
  chain of \<open>p\<close> is what it was, the chain of the child is that of \<open>p\<close> with the
  locator of \<open>a\<close> appended, and the chain of the grandchild is that of \<open>p\<close> with the
  locators of \<open>a\<close> and \<open>b\<close> appended; the same holds for xpath and element, and
  element given a handle does what it does given that handle's own locator. Rooted at
  the document, \<^verbatim>\<open>$(a).$(b)\<close> has the chain and the own locator of the Element
  constructed from the array of the two locators.
\<close>

theorem C7_derived_chains:
  "(r < nextRef h \<longrightarrow>
      locatorArrays (snd (Element_dollar p a h)) r = locatorArrays h r
      \<and> locatorArrays (snd (Element_xpath p a h)) r = locatorArrays h r
      \<and> locatorArrays (snd (Element_element p (Inl l) h)) r = locatorArrays h r)
   \<and> (ownLocator other = Some l
      \<longrightarrow> Element_element p (Inr other) h = Element_element p (Inl l) h)
   \<and> (chainedLocators p < nextRef h \<longrightarrow>
        (let c = Element_dollar p a h; g = Element_dollar (fst c) b (snd c)
         in chainOf (snd c) p = chainOf h p \<and> chainOf (snd g) p = chainOf h p
            \<and> chainOf (snd c) (fst c) = chainOf h p @ [By_css a]
            \<and> chainOf (snd g) (fst c) = chainOf h p @ [By_css a]
            \<and> chainOf (snd g) (fst g) = chainOf h p @ [By_css a, By_css b]
            \<and> ownLocator (fst g) = Some (By_css b))
      \<and> (let c = Element_xpath p a h; g = Element_xpath (fst c) b (snd c)
         in chainOf (snd c) p = chainOf h p \<and> chainOf (snd g) p = chainOf h p
            \<and> chainOf (snd c) (fst c) = chainOf h p @ [By_xpath a]
            \<and> chainOf (snd g) (fst c) = chainOf h p @ [By_xpath a]
            \<and> chainOf (snd g) (fst g) = chainOf h p @ [By_xpath a, By_xpath b]
            \<and> ownLocator (fst g) = Some (By_xpath b))
      \<and> (\<exists>c. fst (Element_element p (Inl l) h) = Inr c
            \<and> chainOf (snd (Element_element p (Inl l) h)) p = chainOf h p
            \<and> chainOf (snd (Element_element p (Inl l) h)) c = chainOf h p @ [l]
            \<and> ownLocator c = Some l))
   \<and> (let c = dollar a h; g = Element_dollar (fst c) b (snd c);
           arg = newArray [By_css a, By_css b] h'; direct = Element_new (Array (fst arg)) (snd arg)
       in chainOf (snd g) (fst g) = [By_css a, By_css b]
          \<and> chainOf (snd direct) (fst direct) = [By_css a, By_css b]
          \<and> ownLocator (fst g) = ownLocator (fst direct))"
  by (simp add: heap_defs currentLocator_def)

theorem C7_derived_chains_witness:
  "(let c = Element_dollar exampleParent ''li'' exampleHeap;
        g = Element_dollar (fst c) ''b'' (snd c)
    in chainOf (snd g) exampleParent = [By_css ''#a'']
       \<and> chainOf (snd g) (fst c) = [By_css ''#a'', By_css ''li'']
       \<and> chainOf (snd g) (fst g) = [By_css ''#a'', By_css ''li'', By_css ''b''])
   \<and> locatorArrays (snd (Element_xpath exampleParent ''//li'' exampleHeap)) 0 = [By_css ''#a'']
   \<and> Element_element exampleParent (Inr exampleParent) exampleHeap
      = Element_element exampleParent (Inl (By_css ''#a'')) exampleHeap"
  using
    C7_derived_chains[where h = exampleHeap and p = exampleParent and a = "''li''"
      and b = "''b''"
      and r = 0 and l = "By_css ''#a''" and h' = exampleHeap and other = exampleParent]
    C7_derived_chains[where h = exampleHeap and p = exampleParent and a = "''//li''"
      and b = "''b''" and r = 0 and l = "By_css ''#a''" and h' = exampleHeap
      and other = exampleParent]
  by (simp add: exampleHeap_def exampleParent_def chainOf_def Let_def)

section \<open>Sorted texts of a collection\<close>

lemma catchPlain_never_returns: "catchPlain st e \<noteq> ReturnFromCatch v"
  by (simp add: catchPlain_def)

lemma getSortedElementsTexts_sorted:
  "ChainedElementAll_getSortedElementsTexts d c w = (Inr v, w') \<Longrightarrow> sorted v"
  by (auto simp: ChainedElementAll_getSortedElementsTexts_def split: prod.splits sum.splits)

lemma retryGetSortedElementsTexts_sorted:
  assumes "ChainedElementAll_retryGetSortedElementsTexts fuel d c w = Some (Inr v, w')"
  shows "sorted v"
proof -
  from assms retryLoop_returns catchPlain_never_returns
  obtain w0 where "ChainedElementAll_retryGetSortedElementsTexts_try d c w0 = (Inr (Returned v), w')"
    unfolding ChainedElementAll_retryGetSortedElementsTexts_def Let_def by metis
  then have "ChainedElementAll_getSortedElementsTexts d c w0 = (Inr v, w')"
    by (auto simp: ChainedElementAll_retryGetSortedElementsTexts_try_def
        split: prod.splits sum.splits)
  then show ?thesis by (rule getSortedElementsTexts_sorted)
qed

lemma sort_reordering: "mset xs = mset ys \<Longrightarrow> sorted ys \<Longrightarrow> sort xs = ys"
  by (metis properties_for_sort)

lemma sort_changes_unsorted: "\<not> sorted xs \<Longrightarrow> sort xs \<noteq> xs"
  by (metis sorted_sort)

text \<open>
  The loop over the elements found reads the text of each, one per element and in the
  order of discovery.
\<close>

lemma getTexts_map:
  "(\<forall>el\<in>set els. \<forall>v. fst (wd_getText d el v) = Inr (textOf el))
   \<Longrightarrow> fst (getTexts d els acc u) = Inr (acc @ map textOf els)"
proof (induction els arbitrary: acc u)
  case Nil
  show ?case by simp
next
  case (Cons el rest)
  from Cons.prems have "fst (wd_getText d el u) = Inr (textOf el)" by simp
  then obtain u' where "wd_getText d el u = (Inr (textOf el), u')"
    by (cases "wd_getText d el u") simp
  moreover from Cons.prems
  have "fst (getTexts d rest (acc @ [textOf el]) u') = Inr ((acc @ [textOf el]) @ map textOf rest)"
    by (intro Cons.IH) simp
  ultimately show ?case by simp
qed

lemma getSortedElementsTexts_map:
  assumes "Element_findElements d (internalElement c) (cea_locator c) w = (Inr found, w1)"
    and "\<forall>el\<in>set found. \<forall>v. fst (wd_getText d el v) = Inr (textOf el)"
  shows "fst (ChainedElementAll_getSortedElementsTexts d c w) = Inr (sort (map textOf found))"
proof -
  from assms(2) have "fst (getTexts d found [] w1) = Inr ([] @ map textOf found)"
    by (rule getTexts_map)
  then obtain w2 where "getTexts d found [] w1 = (Inr (map textOf found), w2)"
    by (cases "getTexts d found [] w1") simp
  with assms(1) show ?thesis
    by (simp add: ChainedElementAll_getSortedElementsTexts_def)
qed

lemma sort_map_reordering:
  "mset found' = mset found \<Longrightarrow> sort (map textOf found') = sort (map textOf found)"
  by (rule properties_for_sort) simp_all

text \<open>
  Claim C8. When the driver finds the elements and reads their texts,
  getSortedElementsTexts returns those texts sorted: an ordered list with the same
  elements. Two discoveries whose texts are reorderings of each other give the same
  result. And expectSortedListToEqual returns successfully when, within the budget, the
  retried getter returns texts of which the caller's list is a reordering.

  The texts are those of the matched elements: when every element found has its text,
  whenever it is read, the loop returns the text of each element, one per element and
  in the order of discovery; getSortedElementsTexts then returns the sorted texts of
  the elements found, and two discoveries of the same elements in different orders give
  the same result.
\<close>

theorem C8_sorted_texts_any_discovery_order:
  "(Element_findElements d (internalElement c) (cea_locator c) w = (Inr found, w1)
      \<and> getTexts d found [] w1 = (Inr texts, w2)
    \<longrightarrow> ChainedElementAll_getSortedElementsTexts d c w = (Inr (sort texts), w2)
        \<and> sorted (sort texts) \<and> mset (sort texts) = mset texts)
   \<and> (Element_findElements d (internalElement c) (cea_locator c) w = (Inr found, w1)
      \<and> getTexts d found [] w1 = (Inr texts, w2)
      \<and> Element_findElements d' (internalElement c) (cea_locator c) v = (Inr found', v1)
      \<and> getTexts d' found' [] v1 = (Inr texts', v2)
      \<and> mset texts' = mset texts
    \<longrightarrow> fst (ChainedElementAll_getSortedElementsTexts d' c v)
        = fst (ChainedElementAll_getSortedElementsTexts d c w))
   \<and> (fst (budget d None w (entered d None w))
      \<and> ChainedElementAll_retryGetSortedElementsTexts (Suc n) d c
           (snd (budget d None w (entered d None w))) = Some (Inr actual, w')
      \<and> mset (arrays list) = mset actual
    \<longrightarrow> snd (expectSortedListToEqual (Suc n) d describe c list failMessage arrays w)
        = Some (Inr (), w'))
   \<and> ((\<forall>el\<in>set els. \<forall>u. fst (wd_getText d el u) = Inr (textOf el))
    \<longrightarrow> fst (getTexts d els acc w) = Inr (acc @ map textOf els))
   \<and> (Element_findElements d (internalElement c) (cea_locator c) w = (Inr found, w1)
      \<and> (\<forall>el\<in>set found. \<forall>u. fst (wd_getText d el u) = Inr (textOf el))
    \<longrightarrow> fst (ChainedElementAll_getSortedElementsTexts d c w)
        = Inr (sort (map textOf found)))
   \<and> (Element_findElements d (internalElement c) (cea_locator c) w = (Inr found, w1)
      \<and> (\<forall>el\<in>set found. \<forall>u. fst (wd_getText d el u) = Inr (textOf el))
      \<and> Element_findElements d' (internalElement c) (cea_locator c) v = (Inr found', v1)
      \<and> (\<forall>el\<in>set found'. \<forall>u. fst (wd_getText d' el u) = Inr (textOf el))
      \<and> mset found' = mset found
    \<longrightarrow> fst (ChainedElementAll_getSortedElementsTexts d' c v)
        = fst (ChainedElementAll_getSortedElementsTexts d c w))"
proof -
  have "Element_findElements d (internalElement c) (cea_locator c) w = (Inr found, w1)
      \<and> getTexts d found [] w1 = (Inr texts, w2)
    \<longrightarrow> ChainedElementAll_getSortedElementsTexts d c w = (Inr (sort texts), w2)
        \<and> sorted (sort texts) \<and> mset (sort texts) = mset texts"
    by (simp add: ChainedElementAll_getSortedElementsTexts_def)
  moreover
  have "Element_findElements d (internalElement c) (cea_locator c) w = (Inr found, w1)
      \<and> getTexts d found [] w1 = (Inr texts, w2)
      \<and> Element_findElements d' (internalElement c) (cea_locator c) v = (Inr found', v1)
      \<and> getTexts d' found' [] v1 = (Inr texts', v2)
      \<and> mset texts' = mset texts
    \<longrightarrow> fst (ChainedElementAll_getSortedElementsTexts d' c v)
        = fst (ChainedElementAll_getSortedElementsTexts d c w)"
    by (simp add: ChainedElementAll_getSortedElementsTexts_def sort_reordering)
  moreover
  have "fst (budget d None w (entered d None w))
      \<and> ChainedElementAll_retryGetSortedElementsTexts (Suc n) d c
           (snd (budget d None w (entered d None w))) = Some (Inr actual, w')
      \<and> mset (arrays list) = mset actual
    \<longrightarrow> snd (expectSortedListToEqual (Suc n) d describe c list failMessage arrays w)
        = Some (Inr (), w')"
  proof (intro impI, elim conjE)
    assume budget: "fst (budget d None w (entered d None w))"
      and actual: "ChainedElementAll_retryGetSortedElementsTexts (Suc n) d c
             (snd (budget d None w (entered d None w))) = Some (Inr actual, w')"
      and reordering: "mset (arrays list) = mset actual"
    from actual have "sorted actual" by (rule retryGetSortedElementsTexts_sorted)
    with reordering have "sort (arrays list) = actual" by (rule sort_reordering)
    with budget actual
    show "snd (expectSortedListToEqual (Suc n) d describe c list failMessage arrays w)
          = Some (Inr (), w')"
      by (simp add: expectSortedListToEqual_def retryExpect_def deepStrictEqual_def)
  qed
  moreover
  have "(\<forall>el\<in>set els. \<forall>u. fst (wd_getText d el u) = Inr (textOf el))
    \<longrightarrow> fst (getTexts d els acc w) = Inr (acc @ map textOf els)"
    by (rule impI) (rule getTexts_map)
  moreover
  have "Element_findElements d (internalElement c) (cea_locator c) w = (Inr found, w1)
      \<and> (\<forall>el\<in>set found. \<forall>u. fst (wd_getText d el u) = Inr (textOf el))
    \<longrightarrow> fst (ChainedElementAll_getSortedElementsTexts d c w)
        = Inr (sort (map textOf found))"
    by (intro impI, elim conjE) (rule getSortedElementsTexts_map)
  moreover
  have "Element_findElements d (internalElement c) (cea_locator c) w = (Inr found, w1)
      \<and> (\<forall>el\<in>set found. \<forall>u. fst (wd_getText d el u) = Inr (textOf el))
      \<and> Element_findElements d' (internalElement c) (cea_locator c) v = (Inr found', v1)
      \<and> (\<forall>el\<in>set found'. \<forall>u. fst (wd_getText d' el u) = Inr (textOf el))
      \<and> mset found' = mset found
    \<longrightarrow> fst (ChainedElementAll_getSortedElementsTexts d' c v)
        = fst (ChainedElementAll_getSortedElementsTexts d c w)"
  proof (intro impI, elim conjE)
    assume "Element_findElements d (internalElement c) (cea_locator c) w = (Inr found, w1)"
      and "\<forall>el\<in>set found. \<forall>u. fst (wd_getText d el u) = Inr (textOf el)"
    then have "fst (ChainedElementAll_getSortedElementsTexts d c w)
        = Inr (sort (map textOf found))"
      by (rule getSortedElementsTexts_map)
    moreover
    assume "Element_findElements d' (internalElement c) (cea_locator c) v = (Inr found', v1)"
      and "\<forall>el\<in>set found'. \<forall>u. fst (wd_getText d' el u) = Inr (textOf el)"
    then have "fst (ChainedElementAll_getSortedElementsTexts d' c v)
        = Inr (sort (map textOf found'))"
      by (rule getSortedElementsTexts_map)
    moreover
    assume "mset found' = mset found"
    then have "sort (map textOf found') = sort (map textOf found)"
      by (rule sort_map_reordering)
    ultimately
    show "fst (ChainedElementAll_getSortedElementsTexts d' c v)
        = fst (ChainedElementAll_getSortedElementsTexts d c w)"
      by simp
  qed
  ultimately show ?thesis by (intro conjI)
qed

theorem C8_sorted_texts_any_discovery_order_witness:
  "ChainedElementAll_getSortedElementsTexts listPage exampleList 0 = (Inr [''a'', ''b''], 40000)
   \<and> ChainedElementAll_getSortedElementsTexts reversedPage exampleList 0
      = (Inr [''a'', ''b''], 40000)
   \<and> snd (expectSortedListToEqual (Suc 0) listPage describeLists exampleList 0 None
          callerArrays 0) = Some (Inr (), 40000)
   \<and> snd (expectSortedListToEqual (Suc 0) reversedPage describeLists exampleList 0 None
          callerArrays 0) = Some (Inr (), 40000)
   \<and> fst (getTexts listPage [WebElement 2, WebElement 3] [] 20000) = Inr [''b'', ''a'']
   \<and> fst (getTexts reversedPage [WebElement 3, WebElement 2] [] 20000) = Inr [''a'', ''b'']
   \<and> fst (getTexts repeatedPage [WebElement 3, WebElement 2, WebElement 4] [] 20000)
      = Inr [''a'', ''b'', ''a'']
   \<and> fst (ChainedElementAll_getSortedElementsTexts repeatedPage exampleList 0)
      = Inr [''a'', ''a'', ''b'']"
  using
    C8_sorted_texts_any_discovery_order[where d = listPage and c = exampleList and w = 0
      and found = "[WebElement 2, WebElement 3]" and ?w1.0 = 20000 and texts = "[''b'', ''a'']"
      and ?w2.0 = 40000 and d' = reversedPage and v = 0
      and found' = "[WebElement 3, WebElement 2]" and ?v1.0 = 20000
      and texts' = "[''a'', ''b'']" and ?v2.0 = 40000
      and n = 0 and actual = "[''a'', ''b'']" and w' = 40000 and arrays = callerArrays
      and list = 0 and describe = describeLists and failMessage = None
      and textOf = exampleTexts and els = "[WebElement 2, WebElement 3]" and acc = "[]"]
    C8_sorted_texts_any_discovery_order[where d = reversedPage and c = exampleList and w = 0
      and found = "[WebElement 3, WebElement 2]" and ?w1.0 = 20000 and texts = "[''a'', ''b'']"
      and ?w2.0 = 40000 and d' = listPage and v = 0
      and found' = "[WebElement 2, WebElement 3]" and ?v1.0 = 20000
      and texts' = "[''b'', ''a'']" and ?v2.0 = 40000
      and n = 0 and actual = "[''a'', ''b'']" and w' = 40000 and arrays = callerArrays
      and list = 0 and describe = describeLists and failMessage = None
      and textOf = exampleTexts and els = "[WebElement 3, WebElement 2]" and acc = "[]"]
    C8_sorted_texts_any_discovery_order[where d = repeatedPage and c = exampleList and w = 0
      and found = "[WebElement 3, WebElement 2, WebElement 4]" and ?w1.0 = 20000
      and texts = "[''a'', ''b'', ''a'']"
      and ?w2.0 = 50000 and d' = repeatedPage and v = 0
      and found' = "[WebElement 3, WebElement 2, WebElement 4]" and ?v1.0 = 20000
      and texts' = "[''a'', ''b'', ''a'']" and ?v2.0 = 50000
      and n = 0 and actual = "[''a'', ''a'', ''b'']" and w' = 50000 and arrays = callerArrays
      and list = 0 and describe = describeLists and failMessage = None
      and textOf = exampleTexts
      and els = "[WebElement 3, WebElement 2, WebElement 4]" and acc = "[]"]
  by (simp add: timeoutCondition_def QuarterAMinute_def getElement_def Element_findElements_def
      ChainedElementAll_retryGetSortedElementsTexts_def
      ChainedElementAll_retryGetSortedElementsTexts_try_def
      ChainedElementAll_getSortedElementsTexts_def exampleTexts_def
      pageDriver_def listPage_def reversedPage_def repeatedPage_def exampleList_def
      callerArrays_def)

text \<open>
  Claim C10. expectSortedListToEqual and expectSortedListToBe leave the store of string
  arrays changed at the caller's list, whatever the outcome of the comparison and even
  when the loop has not ended: the array holds the same strings in sorted order, and
  so differs from what the caller passed whenever that was not sorted.
\<close>

theorem C10_expected_array_sorted_in_place:
  "fst (expectSortedListToEqual fuel d describe c list failMessage arrays w)
     = arrays(list := sort (arrays list))
   \<and> fst (expectSortedListToBe fuel d describe ea list failMessage arrays w)
     = arrays(list := sort (arrays list))
   \<and> sorted (sort (arrays list)) \<and> mset (sort (arrays list)) = mset (arrays list)
   \<and> (\<not> sorted (arrays list)
      \<longrightarrow> fst (expectSortedListToEqual fuel d describe c list failMessage arrays w) list
          \<noteq> arrays list
        \<and> fst (expectSortedListToBe fuel d describe ea list failMessage arrays w) list
          \<noteq> arrays list)"
  by (simp add: expectSortedListToEqual_def expectSortedListToBe_def Let_def
      sort_changes_unsorted)

theorem C10_expected_array_sorted_in_place_witness:
  "fst (expectSortedListToEqual 1 listPage describeLists exampleList 0 None callerArrays 0) 0
     = [''a'', ''b'']
   \<and> fst (expectSortedListToBe 1 listPage describeLists (dollar_dollar ''li'') 0 None
          callerArrays 0) 0 = [''a'', ''b'']
   \<and> callerArrays 0 = [''b'', ''a'']"
  using C10_expected_array_sorted_in_place[where d = listPage and c = exampleList and ea = "dollar_dollar ''li''"
      and list = 0 and arrays = callerArrays and fuel = 1 and describe = describeLists
      and failMessage = None and w = 0]
  by (simp add: callerArrays_def)

section \<open>A loop that records nothing\<close>

lemma click_try_fell_through:
  "(click_try d chain v = (Inr FellThrough, v'))
   = (\<exists>el v1. getElement d chain v = (Inr el, v1) \<and> wd_isEnabled d el v1 = (Inr False, v'))"
  by (auto simp: click_try_def split: prod.splits sum.splits if_splits)

text \<open>
  Claim C9 says that with a budget that is not positive the budget predicate is false
  at its first check, so that no attempt is made and \<^verbatim>\<open>undefined\<close> is thrown. For
  the budget 0 this fails: the predicate is \<^verbatim>\<open>elapsed <= timeoutMs\<close>, and when the
  clock has not advanced between the creation of the predicate and the first check it
  holds. On the example page retryGetElement with timeout 0 makes an attempt and
  returns the element.
\<close>

theorem C9_zero_budget_counterexample:
  "fst (budget pageDriver (Some 0) 0 (entered pageDriver (Some 0) 0))
   \<and> retryGetElement (Suc 0) pageDriver [By_css ''#a''] (Some 0) 0
      = Some (Inr (WebElement 1), 10000)"
  by (simp add: retryGetElement_def retryGetElement_try_def getElement_def
      timeoutCondition_def pageDriver_def)

text \<open>
  Claim C9 as amended. A negative budget makes the budget predicate false at its first
  check when the clock does not run backwards. Whenever the predicate is false at its
  first check, each of the nine retrying methods of Element, waitForNotPresent and the
  two retryGetSortedElementsTexts throw \<^verbatim>\<open>undefined\<close> in the world that check
  leaves, without any attempt, and retryExpect with no message (absent or empty) throws
  the TypeError of reading \<^verbatim>\<open>exception.message\<close>. The try block of
  click falls through exactly when the chain resolves and the element is not enabled;
  when every attempt within the budget does so, click throws \<^verbatim>\<open>undefined\<close> at the
  timeout.
\<close>

theorem C9_no_attempt_throws_undefined:
  "(t < 0 \<and> fst (date_now d w) \<le> fst (date_now d (snd (date_now d w)))
      \<longrightarrow> \<not> fst (budget d (Some t) w (entered d (Some t) w)))
   \<and> (\<not> fst (budget d timeout w (entered d timeout w))
      \<longrightarrow> retryGetElement (Suc n) d chain timeout w
          = Some (Inl Undefined, snd (budget d timeout w (entered d timeout w))))
   \<and> (\<not> fst (budget d timeout w (entered d timeout w))
      \<longrightarrow> click (Suc n) d chain timeout w
          = Some (Inl Undefined, snd (budget d timeout w (entered d timeout w))))
   \<and> (\<not> fst (budget d None w (entered d None w))
      \<longrightarrow> clickSendKeys (Suc n) d chain var_args w
          = Some (Inl Undefined, snd (budget d None w (entered d None w))))
   \<and> (\<not> fst (budget d None w (entered d None w))
      \<longrightarrow> clickTillAttributeEqual (Suc n) d chain name val w
          = Some (Inl Undefined, snd (budget d None w (entered d None w))))
   \<and> (\<not> fst (budget d None w (entered d None w))
      \<longrightarrow> clickTillElementPresent (Suc n) d chain other w
          = Some (Inl Undefined, snd (budget d None w (entered d None w))))
   \<and> (\<not> fst (budget d None w (entered d None w))
      \<longrightarrow> waitForVisible (Suc n) d chain w
          = Some (Inl Undefined, snd (budget d None w (entered d None w))))
   \<and> (\<not> fst (budget d None w (entered d None w))
      \<longrightarrow> retryIsDisplayed (Suc n) d chain w
          = Some (Inl Undefined, snd (budget d None w (entered d None w))))
   \<and> (\<not> fst (budget d None w (entered d None w))
      \<longrightarrow> retryGetText (Suc n) d chain w
          = Some (Inl Undefined, snd (budget d None w (entered d None w))))
   \<and> (\<not> fst (budget d None w (entered d None w))
      \<longrightarrow> retryFindElements (Suc n) d chain locator w
          = Some (Inl Undefined, snd (budget d None w (entered d None w))))
   \<and> (\<not> fst (budget d None w (entered d None w))
      \<longrightarrow> waitForNotPresent (Suc n) d chain w
          = Some (Inl Undefined, snd (budget d None w (entered d None w))))
   \<and> (\<not> fst (budget d None w (entered d None w))
      \<longrightarrow> ChainedElementAll_retryGetSortedElementsTexts (Suc n) d c w
          = Some (Inl Undefined, snd (budget d None w (entered d None w))))
   \<and> (\<not> fst (budget d None w (entered d None w))
      \<longrightarrow> ElementAll_retryGetSortedElementsTexts (Suc n) d ea w
          = Some (Inl Undefined, snd (budget d None w (entered d None w))))
   \<and> (\<not> fst (budget d (opt_timeout opts) w (entered d (opt_timeout opts) w))
        \<and> \<not> truthy (opt_message opts)
      \<longrightarrow> retryExpect (Suc n) d describe foo expected opts w
          = Some (Inl (Error undefinedMessageTypeError),
                  snd (budget d (opt_timeout opts) w (entered d (opt_timeout opts) w)))
        \<and> errClass undefinedMessageTypeError = TypeError)
   \<and> ((click_try d chain v = (Inr FellThrough, v'))
       = (\<exists>el v1. getElement d chain v = (Inr el, v1)
                 \<and> wd_isEnabled d el v1 = (Inr False, v')))
   \<and> (attemptsRun (budget d timeout w) (click_try d chain) (entered d timeout w) run
        \<and> list_all (\<lambda>a. fst a = Inr FellThrough) run
        \<and> \<not> fst (budget d timeout w (endOf (entered d timeout w) run))
        \<and> length run < fuel
      \<longrightarrow> click fuel d chain timeout w = Some (Inl Undefined, afterTimeout d timeout w run))"
proof -
  have neg: "t < 0 \<and> fst (date_now d w) \<le> fst (date_now d (snd (date_now d w)))
      \<longrightarrow> \<not> fst (budget d (Some t) w (entered d (Some t) w))"
    by (simp add: timeoutCondition_def)
  have expect: "\<not> fst (budget d (opt_timeout opts) w (entered d (opt_timeout opts) w))
        \<and> \<not> truthy (opt_message opts)
      \<longrightarrow> retryExpect (Suc n) d describe foo expected opts w
          = Some (Inl (Error undefinedMessageTypeError),
                  snd (budget d (opt_timeout opts) w (entered d (opt_timeout opts) w)))
        \<and> errClass undefinedMessageTypeError = TypeError"
    by (simp add: retryExpect_def retryExpect_throw_def undefinedMessageTypeError_def)
  have never: "attemptsRun (budget d timeout w) (click_try d chain) (entered d timeout w) run
        \<and> list_all (\<lambda>a. fst a = Inr FellThrough) run
        \<and> \<not> fst (budget d timeout w (endOf (entered d timeout w) run))
        \<and> length run < fuel
      \<longrightarrow> click fuel d chain timeout w = Some (Inl Undefined, afterTimeout d timeout w run)"
  proof (intro impI, elim conjE)
    assume run: "attemptsRun (budget d timeout w) (click_try d chain) (entered d timeout w) run"
      and ft: "list_all (\<lambda>a. fst a = Inr FellThrough) run"
      and out: "\<not> fst (budget d timeout w (endOf (entered d timeout w) run))"
      and fuel: "length run < fuel"
    have "click fuel d chain timeout w
          = Some (Inl (lastRecorded (\<lambda>e. (annotate chain e)\<lparr>stack := preserved d w\<rparr>)
                         Undefined run), afterTimeout d timeout w run)"
      unfolding click_def Let_def
      by (rule loop_timeout_after[where R = retryable,
            OF run fell_through_continues[OF ft] out fuel catchAnnotate_retryable])
    then show "click fuel d chain timeout w
          = Some (Inl Undefined, afterTimeout d timeout w run)"
      by (simp add: lastRecorded_fell_through[OF ft])
  qed
  show ?thesis
    apply (intro conjI)
                   apply (rule neg)
                  apply (simp add: retryGetElement_def)
                 apply (simp add: click_def)
                apply (simp add: clickSendKeys_def)
               apply (simp add: clickTillAttributeEqual_def)
              apply (simp add: clickTillElementPresent_def)
             apply (simp add: waitForVisible_def)
            apply (simp add: retryIsDisplayed_def)
           apply (simp add: retryGetText_def)
          apply (simp add: retryFindElements_def)
         apply (simp add: waitForNotPresent_def)
        apply (simp add: ChainedElementAll_retryGetSortedElementsTexts_def)
       apply (simp add: ElementAll_retryGetSortedElementsTexts_def)
      apply (rule expect)
     apply (rule click_try_fell_through)
    apply (rule never)
    done
qed

theorem C9_no_attempt_throws_undefined_witness:
  "retryGetElement (Suc 0) pageDriver [By_css ''#a''] (Some (- 1)) 0 = Some (Inl Undefined, 0)
   \<and> retryGetElement (Suc 0) sleepyPage [By_css ''#a''] None 0 = Some (Inl Undefined, 40000)
   \<and> click (Suc 0) sleepyPage [By_css ''#a''] None 0 = Some (Inl Undefined, 40000)
   \<and> clickSendKeys (Suc 0) sleepyPage [By_css ''#a''] [''x''] 0 = Some (Inl Undefined, 40000)
   \<and> clickTillAttributeEqual (Suc 0) sleepyPage [By_css ''#a''] ''value'' ''done'' 0 = Some (Inl Undefined, 40000)
   \<and> clickTillElementPresent (Suc 0) sleepyPage [By_css ''#a''] [By_css ''#b''] 0 = Some (Inl Undefined, 40000)
   \<and> waitForVisible (Suc 0) sleepyPage [By_css ''#a''] 0 = Some (Inl Undefined, 40000)
   \<and> retryIsDisplayed (Suc 0) sleepyPage [By_css ''#a''] 0 = Some (Inl Undefined, 40000)
   \<and> retryGetText (Suc 0) sleepyPage [By_css ''#a''] 0 = Some (Inl Undefined, 40000)
   \<and> retryFindElements (Suc 0) sleepyPage [By_css ''#a''] (By_css ''li'') 0
      = Some (Inl Undefined, 40000)
   \<and> waitForNotPresent (Suc 0) sleepyPage [By_css ''#a''] 0 = Some (Inl Undefined, 40000)
   \<and> ChainedElementAll_retryGetSortedElementsTexts (Suc 0) sleepyPage exampleList 0
      = Some (Inl Undefined, 40000)
   \<and> ElementAll_retryGetSortedElementsTexts (Suc 0) sleepyPage (dollar_dollar ''li'') 0
      = Some (Inl Undefined, 40000)
   \<and> retryExpect (Suc 0) pageDriver describeTexts (retryGetText (Suc 0) pageDriver [By_css ''#a''])
        ''ready'' noOptions 0 = Some (Inl (Error undefinedMessageTypeError), 0)
   \<and> click 2 disabledPage [By_css ''#a''] None 0 = Some (Inl Undefined, 20000)"
  using
    C9_no_attempt_throws_undefined[where d = pageDriver and w = 0 and timeout = "Some (- 1)" and n = 0
      and chain = "[By_css ''#a'']" and run = "[]" and fuel = 1
      and opts = noOptions and describe = describeTexts and c = exampleList
      and ea = "dollar_dollar ''li''"
      and foo = "retryGetText (Suc 0) pageDriver [By_css ''#a'']" and expected = "''ready''"
      and t = "- 1" and v = 0 and v' = 20000 and var_args = "[''x'']" and name = "''value''"
      and val = "''done''" and other = "[By_css ''#b'']" and locator = "By_css ''li''"]
    C9_no_attempt_throws_undefined[where d = sleepyPage and w = 0 and timeout = None and n = 0
      and chain = "[By_css ''#a'']" and run = "[]" and fuel = 1
      and opts = noOptions and describe = describeTexts and c = exampleList
      and ea = "dollar_dollar ''li''"
      and foo = "retryGetText (Suc 0) pageDriver [By_css ''#a'']" and expected = "''ready''"
      and t = "- 1" and v = 0 and v' = 20000 and var_args = "[''x'']" and name = "''value''"
      and val = "''done''" and other = "[By_css ''#b'']" and locator = "By_css ''li''"]
    C9_no_attempt_throws_undefined[where d = disabledPage and w = 0 and timeout = None and n = 0
      and chain = "[By_css ''#a'']" and run = "[(Inr FellThrough, 20000)]" and fuel = 2
      and opts = noOptions and describe = describeTexts and c = exampleList
      and ea = "dollar_dollar ''li''"
      and foo = "retryGetText (Suc 0) pageDriver [By_css ''#a'']" and expected = "''ready''"
      and t = "- 1" and v = 0 and v' = 20000 and var_args = "[''x'']" and name = "''value''"
      and val = "''done''" and other = "[By_css ''#b'']" and locator = "By_css ''li''"]
  by (simp add: afterTimeout_def run_defs try_defs pageDriver_def sleepyPage_def
      disabledPage_def noOptions_def
      truthy_def)

end
